theory Spec2Isabelle
  imports Complex_Main "HOL-Library.Char_ord" "HOL-Library.List_Lexorder"
begin

section \<open>The backtest engine of BacktestPanel.jsx\<close>

text \<open>
  The engine is the function \<^verbatim>\<open>runBacktest\<close> of
  \<^verbatim>\<open>gold_analysis_dashboard/src/components/BacktestPanel.jsx\<close> together with its
  helper \<^verbatim>\<open>calculateYoY\<close>. The embedding follows the source statement by statement.

  Conventions of the embedding:
  \<^item> A JavaScript number that is built from the inputs by \<open>+\<close>, \<open>-\<close> and \<open>*\<close> only is an
    exact rational (\<open>rat\<close>); the rounding of IEEE doubles is not modelled.
  \<^item> A JavaScript number that comes out of a division whose denominator is a variable is a
    \<open>jsnum\<close>: either a finite rational or \<open>NonFinite\<close>, which stands for the three values
    \<^verbatim>\<open>Infinity\<close>, \<^verbatim>\<open>-Infinity\<close> and \<^verbatim>\<open>NaN\<close> that JavaScript returns
    instead of raising. HOL's own \<open>x / 0 = 0\<close> is never relied upon.
  \<^item> Dates and contract labels are strings, compared as JavaScript compares strings
    (lexicographically by code unit).
  \<^item> \<^verbatim>\<open>x.toFixed(f)\<close> returns a decimal string; the model keeps the number which that
    string denotes (what \<^verbatim>\<open>parseFloat\<close> reads back).
  \<^item> The React setters \<^verbatim>\<open>setStats\<close>, \<^verbatim>\<open>setEquityCurve\<close>, ... are the output of a
    run: \<open>runBacktest\<close> returns \<open>Some\<close> of what they are given, and \<open>None\<close> when the
    function returns without calling them.
  \<^item> The inputs are finite numbers; \<^verbatim>\<open>NaN\<close> and infinities among the prices or the
    configuration are not modelled. Of an observation only the fields that the claims
    speak about are kept; \<^verbatim>\<open>expiry_far\<close> and \<^verbatim>\<open>premium\<close> are never read by the
    engine.
  \<^item> The \<^verbatim>\<open>cagr\<close> statistic (a fractional power over parsed calendar dates) is left out
    of the statistics record; nothing below depends on it.
\<close>

subsection \<open>Numbers\<close>

datatype jsnum = Finite rat | NonFinite

fun js_div :: "jsnum \<Rightarrow> rat \<Rightarrow> jsnum" where
  "js_div NonFinite b = NonFinite"
| "js_div (Finite a) b = (if b = 0 then NonFinite else Finite (a / b))"

fun js_mul :: "jsnum \<Rightarrow> rat \<Rightarrow> jsnum" where
  "js_mul NonFinite c = NonFinite"
| "js_mul (Finite a) c = Finite (a * c)"

fun js_add :: "jsnum \<Rightarrow> jsnum \<Rightarrow> jsnum" where
  "js_add (Finite a) (Finite b) = Finite (a + b)"
| "js_add _ _ = NonFinite"

text \<open>\<^verbatim>\<open>Math.round\<close>: the nearest integer, a tie going up.\<close>

definition Math_round :: "rat \<Rightarrow> rat" where
  "Math_round x = of_int \<lfloor>x + 1 / 2\<rfloor>"

text \<open>
  \<^verbatim>\<open>Number.prototype.toFixed\<close>: the sign is split off, and the magnitude is rounded to
  \<open>f\<close> decimals, a tie going to the larger magnitude.
\<close>

definition toFixed :: "nat \<Rightarrow> rat \<Rightarrow> rat" where
  "toFixed f x =
     (if x < 0 then - (of_int \<lfloor>(- x) * 10 ^ f + 1 / 2\<rfloor> / 10 ^ f)
      else of_int \<lfloor>x * 10 ^ f + 1 / 2\<rfloor> / 10 ^ f)"

fun js_toFixed :: "nat \<Rightarrow> jsnum \<Rightarrow> jsnum" where
  "js_toFixed f NonFinite = NonFinite"
| "js_toFixed f (Finite x) = Finite (toFixed f x)"

text \<open>\<^verbatim>\<open>Math.max(...xs)\<close>, called on non-empty lists only.\<close>

definition Math_max :: "rat list \<Rightarrow> rat" where
  "Math_max xs = fold max (tl xs) (hd xs)"

subsection \<open>Data\<close>

record observation =
  date :: string
  price_near :: rat
  price_far :: rat
  expiry_near :: string
  expiry_near_date :: "string option"

record config =
  startDate :: string
  endDate :: string
  initialLots :: rat
  initialMarginPercent :: rat
  transactionCost :: rat
  compoundingFactor :: rat
  isCompounding :: bool
  neverCompound :: bool

record equity_point =
  ep_date :: string
  ep_equity :: rat
  ep_lots :: rat
  ep_drawdown :: rat

record drawdown_point =
  dp_date :: string
  dp_drawdown :: rat

text \<open>
  A trade is a JavaScript object; a property that the object literal does not set is
  \<open>None\<close>.
\<close>

record trade =
  tr_date :: string
  tr_type :: string
  tr_contracts :: string
  tr_sellPrice :: "rat option"
  tr_buyPrice :: "rat option"
  tr_lots :: rat
  tr_grossPnL :: "rat option"
  tr_cost :: "rat option"
  tr_netPnL :: "rat option"
  tr_equity :: rat
  tr_note :: "string option"

record sim_state =
  currentLots :: rat
  cash :: rat
  entryPrice :: rat
  baselineCapital :: rat
  peakEquity :: rat
  equitySeries :: "equity_point list"
  drawdownSeries :: "drawdown_point list"
  trades :: "trade list"

record yearly_return =
  yr_year :: string
  yr_return :: jsnum

record stats =
  st_initialCapital :: rat
  st_finalCapital :: rat
  st_totalReturn :: jsnum
  st_avgAnnualRet :: jsnum
  st_maxDD :: rat
  st_maxLots :: rat

record results =
  res_stats :: stats
  res_equityCurve :: "equity_point list"
  res_drawdownCurve :: "drawdown_point list"
  res_yearlyReturns :: "yearly_return list"
  res_tradeLog :: "trade list"

subsection \<open>The simulation loop\<close>

definition CONTRACT_MULTIPLIER :: rat where
  "CONTRACT_MULTIPLIER = 100"

definition initialCapital :: "config \<Rightarrow> observation \<Rightarrow> rat" where
  "initialCapital cfg d0 =
     (let startPrice = price_near d0;
          contractValue = startPrice * CONTRACT_MULTIPLIER * initialLots cfg
      in contractValue * (initialMarginPercent cfg / 100))"

definition init_state :: "config \<Rightarrow> observation \<Rightarrow> sim_state" where
  "init_state cfg d0 =
     \<lparr>currentLots = initialLots cfg,
      cash = initialCapital cfg d0,
      entryPrice = price_near d0,
      baselineCapital = initialCapital cfg d0,
      peakEquity = initialCapital cfg d0,
      equitySeries = [],
      drawdownSeries = [],
      trades = []\<rparr>"

text \<open>The arrow of the template literal, U+2192, as its UTF-8 bytes.\<close>

definition arrow :: string where
  "arrow = [CHR 0xE2, CHR 0x86, CHR 0x92]"

text \<open>The body of the rollover branch (source lines 58 to 81).\<close>

definition rollover :: "config \<Rightarrow> observation \<Rightarrow> observation \<Rightarrow> sim_state \<Rightarrow> sim_state" where
  "rollover cfg prev today s =
     (let sellPrice = price_near prev;
          buyPrice = price_far prev;
          rawPnL = (sellPrice - entryPrice s) * CONTRACT_MULTIPLIER * currentLots s;
          cost = transactionCost cfg * currentLots s;
          netPnL = rawPnL - cost;
          cash' = cash s + netPnL
      in s\<lparr>cash := cash',
            entryPrice := buyPrice,
            trades := trades s @
              [\<lparr>tr_date = date today,
                tr_type = ''Rollover'',
                tr_contracts = expiry_near prev @ '' '' @ arrow @ '' '' @ expiry_near today,
                tr_sellPrice = Some sellPrice,
                tr_buyPrice = Some buyPrice,
                tr_lots = currentLots s,
                tr_grossPnL = Some rawPnL,
                tr_cost = Some cost,
                tr_netPnL = Some netPnL,
                tr_equity = cash',
                tr_note = None\<rparr>]\<rparr>)"

text \<open>
  The test of line 57: \<^verbatim>\<open>prev && today.expiry_near !== prev.expiry_near\<close>. The field
  \<open>expiry_near_date\<close> is not read.
\<close>

definition check_rollover :: "config \<Rightarrow> observation option \<Rightarrow> observation \<Rightarrow> sim_state \<Rightarrow> sim_state" where
  "check_rollover cfg prev today s =
     (case prev of
        None \<Rightarrow> s
      | Some p \<Rightarrow> if expiry_near today \<noteq> expiry_near p then rollover cfg p today s else s)"

text \<open>Mark to market (lines 85 to 87): the value of \<^verbatim>\<open>currentEquity\<close>.\<close>

definition mark_to_market :: "observation \<Rightarrow> sim_state \<Rightarrow> rat" where
  "mark_to_market today s =
     (let currentPrice = price_near today;
          unrealized = (currentPrice - entryPrice s) * CONTRACT_MULTIPLIER * currentLots s
      in cash s + unrealized)"

text \<open>The compounding check (lines 90 to 103).\<close>

definition compounding_check :: "config \<Rightarrow> observation \<Rightarrow> rat \<Rightarrow> sim_state \<Rightarrow> sim_state" where
  "compounding_check cfg today currentEquity s =
     (if \<not> neverCompound cfg \<and> isCompounding cfg then
        if currentEquity - baselineCapital s \<ge> (compoundingFactor cfg / 100) * baselineCapital s then
          s\<lparr>currentLots := currentLots s * 2,
            baselineCapital := currentEquity,
            trades := trades s @
              [\<lparr>tr_date = date today,
                tr_type = ''Compounding'',
                tr_contracts = ''Position Doubled'',
                tr_sellPrice = None,
                tr_buyPrice = None,
                tr_lots = currentLots s * 2,
                tr_grossPnL = None,
                tr_cost = None,
                tr_netPnL = None,
                tr_equity = currentEquity,
                tr_note = Some ''Profit Target Hit''\<rparr>]\<rparr>
        else s
      else s)"

text \<open>Drawdown tracking and the two pushes (lines 106 to 115).\<close>

definition new_peak :: "rat \<Rightarrow> sim_state \<Rightarrow> rat" where
  "new_peak currentEquity s =
     (if currentEquity > peakEquity s then currentEquity else peakEquity s)"

definition drawdown :: "rat \<Rightarrow> rat \<Rightarrow> rat" where
  "drawdown peak currentEquity =
     (if peak > 0 then ((peak - currentEquity) / peak) * 100 else 0)"

definition drawdown_tracking :: "observation \<Rightarrow> rat \<Rightarrow> sim_state \<Rightarrow> sim_state" where
  "drawdown_tracking today currentEquity s =
     (let peak = new_peak currentEquity s;
          dd = drawdown peak currentEquity
      in s\<lparr>peakEquity := peak,
            equitySeries := equitySeries s @
              [\<lparr>ep_date = date today,
                ep_equity = Math_round currentEquity,
                ep_lots = currentLots s,
                ep_drawdown = toFixed 2 dd\<rparr>],
            drawdownSeries := drawdownSeries s @
              [\<lparr>dp_date = date today, dp_drawdown = toFixed 2 dd\<rparr>]\<rparr>)"

text \<open>One iteration of the \<^verbatim>\<open>for\<close> loop.\<close>

definition day_step :: "config \<Rightarrow> observation option \<Rightarrow> observation \<Rightarrow> sim_state \<Rightarrow> sim_state" where
  "day_step cfg prev today s =
     (let s1 = check_rollover cfg prev today s;
          currentEquity = mark_to_market today s1;
          s2 = compounding_check cfg today currentEquity s1
      in drawdown_tracking today currentEquity s2)"

text \<open>
  The loop over \<^verbatim>\<open>data\<close>; \<open>prev\<close> is \<^verbatim>\<open>data[i - 1]\<close>, \<open>None\<close> in the first
  iteration.
\<close>

fun loop :: "config \<Rightarrow> observation option \<Rightarrow> observation list \<Rightarrow> sim_state \<Rightarrow> sim_state" where
  "loop cfg prev [] s = s"
| "loop cfg prev (today # rest) s = loop cfg (Some today) rest (day_step cfg prev today s)"

subsection \<open>Yearly returns\<close>

definition year_of :: "string \<Rightarrow> string" where
  "year_of d = takeWhile (\<lambda>c. c \<noteq> CHR ''-'') d"

text \<open>
  \<^verbatim>\<open>yearsMap\<close> is kept as a list of entries \<open>(year, start, end)\<close> with distinct years.
  One step of the \<^verbatim>\<open>forEach\<close>: a year not yet present gets \<open>start = end = equity\<close>, a
  year already present gets its \<open>end\<close> overwritten. Years are taken not to collide with
  the property names every JavaScript object inherits.
\<close>

fun yearsMap_add :: "string \<Rightarrow> rat \<Rightarrow> (string \<times> rat \<times> rat) list \<Rightarrow> (string \<times> rat \<times> rat) list" where
  "yearsMap_add y e [] = [(y, e, e)]"
| "yearsMap_add y e ((k, st, en) # m) =
     (if k = y then (k, st, e) # m else (k, st, en) # yearsMap_add y e m)"

definition build_yearsMap :: "equity_point list \<Rightarrow> (string \<times> rat \<times> rat) list" where
  "build_yearsMap series = foldl (\<lambda>m d. yearsMap_add (year_of (ep_date d)) (ep_equity d) m) [] series"

text \<open>The value of the local \<^verbatim>\<open>ret\<close>, before it is formatted.\<close>

definition yoy_ret :: "rat \<Rightarrow> rat \<Rightarrow> jsnum" where
  "yoy_ret start end = js_mul (js_div (Finite (end - start)) start) 100"

text \<open>
  The second loop of \<^verbatim>\<open>calculateYoY\<close>, over the entries in the order of the sorted
  keys; \<open>prev\<close> is the entry of \<^verbatim>\<open>years[i - 1]\<close>.
\<close>

fun yoy_loop :: "(string \<times> rat \<times> rat) option \<Rightarrow> (string \<times> rat \<times> rat) list \<Rightarrow> yearly_return list" where
  "yoy_loop prev [] = []"
| "yoy_loop prev ((y, st, en) # rest) =
     (let start = (case prev of None \<Rightarrow> st | Some (py, pst, pen) \<Rightarrow> pen)
      in \<lparr>yr_year = y, yr_return = js_toFixed 1 (yoy_ret start en)\<rparr>
         # yoy_loop (Some (y, st, en)) rest)"

definition calculateYoY :: "equity_point list \<Rightarrow> yearly_return list" where
  "calculateYoY series = yoy_loop None (sort_key fst (build_yearsMap series))"

subsection \<open>The run\<close>

definition in_window :: "config \<Rightarrow> observation \<Rightarrow> bool" where
  "in_window cfg d \<longleftrightarrow> date d \<ge> startDate cfg \<and> date d \<le> endDate cfg"

definition final_stats :: "config \<Rightarrow> observation \<Rightarrow> sim_state \<Rightarrow> results" where
  "final_stats cfg d0 s =
     (let finalEq = ep_equity (last (equitySeries s));
          totalRet = js_mul (js_div (Finite (finalEq - initialCapital cfg d0)) (initialCapital cfg d0)) 100;
          yoy = calculateYoY (equitySeries s);
          avgAnnualRet = js_div (foldl (\<lambda>acc curr. js_add acc (yr_return curr)) (Finite 0) yoy)
                           (of_nat (length yoy))
      in \<lparr>res_stats =
             \<lparr>st_initialCapital = initialCapital cfg d0,
              st_finalCapital = finalEq,
              st_totalReturn = totalRet,
              st_avgAnnualRet = avgAnnualRet,
              st_maxDD = Math_max (map ep_drawdown (equitySeries s)),
              st_maxLots = Math_max (map ep_lots (equitySeries s))\<rparr>,
           res_equityCurve = equitySeries s,
           res_drawdownCurve = drawdownSeries s,
           res_yearlyReturns = yoy,
           res_tradeLog = rev (trades s)\<rparr>)"

text \<open>The state after the loop, for a filtered series that starts with \<open>d0\<close>.\<close>

definition simulate :: "config \<Rightarrow> observation list \<Rightarrow> sim_state" where
  "simulate cfg data = loop cfg None data (init_state cfg (data ! 0))"

definition runBacktest :: "config \<Rightarrow> observation list option \<Rightarrow> results option" where
  "runBacktest cfg fullData =
     (case fullData of
        None \<Rightarrow> None
      | Some fd \<Rightarrow>
          if length fd = 0 then None
          else
            let data = filter (in_window cfg) fd in
            if length data < 2 then None
            else
              let s = simulate cfg data in
              if length (equitySeries s) > 0 then Some (final_stats cfg (data ! 0) s)
              else None)"

subsection \<open>The state at each day of a run\<close>

text \<open>
  Iteration \<open>i\<close> of the loop starts in \<open>state_before cfg data i\<close> with
  \<^verbatim>\<open>prev\<close> equal to \<open>prev_of data i\<close>; \<open>after_rollover\<close> is the state after the
  rollover test of that iteration, and \<open>equity_at\<close> the value of
  \<^verbatim>\<open>currentEquity\<close> computed in it.
\<close>

definition prev_of :: "observation list \<Rightarrow> nat \<Rightarrow> observation option" where
  "prev_of data i = (if i > 0 then Some (data ! (i - 1)) else None)"

definition state_before :: "config \<Rightarrow> observation list \<Rightarrow> nat \<Rightarrow> sim_state" where
  "state_before cfg data i = loop cfg None (take i data) (init_state cfg (data ! 0))"

definition after_rollover :: "config \<Rightarrow> observation list \<Rightarrow> nat \<Rightarrow> sim_state" where
  "after_rollover cfg data i =
     check_rollover cfg (prev_of data i) (data ! i) (state_before cfg data i)"

definition equity_at :: "config \<Rightarrow> observation list \<Rightarrow> nat \<Rightarrow> rat" where
  "equity_at cfg data i = mark_to_market (data ! i) (after_rollover cfg data i)"

subsection \<open>Yearly returns in the words of the specification\<close>

text \<open>
  The specification groups the equity points by the calendar year of their date. For each
  year, \<open>end\<close> is the last equity value of that year and \<open>start\<close> is the last equity
  value of the year before, or the first equity value of the year when it is the first
  year; the return is \<open>(end - start) / start * 100\<close>, and the years ascend. The
  definitions \<open>spec_\<dots>\<close> say this directly; they are compared with \<open>calculateYoY\<close> below.
\<close>

definition point_year :: "equity_point \<Rightarrow> string" where
  "point_year p = year_of (ep_date p)"

definition spec_years :: "equity_point list \<Rightarrow> string list" where
  "spec_years series = sort (remdups (map point_year series))"

definition year_points :: "string \<Rightarrow> equity_point list \<Rightarrow> equity_point list" where
  "year_points y series = filter (\<lambda>p. point_year p = y) series"

definition spec_first :: "equity_point list \<Rightarrow> string \<Rightarrow> rat" where
  "spec_first series y = ep_equity (hd (year_points y series))"

definition spec_end :: "equity_point list \<Rightarrow> string \<Rightarrow> rat" where
  "spec_end series y = ep_equity (last (year_points y series))"

fun spec_yearly :: "equity_point list \<Rightarrow> string option \<Rightarrow> string list \<Rightarrow> (string \<times> jsnum) list" where
  "spec_yearly series prior [] = []"
| "spec_yearly series prior (y # ys) =
     (let start = (case prior of None \<Rightarrow> spec_first series y | Some py \<Rightarrow> spec_end series py)
      in (y, yoy_ret start (spec_end series y)) # spec_yearly series (Some y) ys)"

definition spec_yearly_returns :: "equity_point list \<Rightarrow> (string \<times> jsnum) list" where
  "spec_yearly_returns series = spec_yearly series None (spec_years series)"

text \<open>
  Compounding a list of percentage returns one after the other, from a starting value; a
  return that is not finite leaves no finite value.
\<close>

fun compound_returns :: "rat \<Rightarrow> jsnum list \<Rightarrow> jsnum" where
  "compound_returns c [] = Finite c"
| "compound_returns c (Finite x # rs) = compound_returns (c * (1 + x / 100)) rs"
| "compound_returns c (NonFinite # rs) = NonFinite"

text \<open>The reported yearly returns of a run, compounded from its initial capital.\<close>

definition chained_final :: "results \<Rightarrow> jsnum" where
  "chained_final r =
     compound_returns (st_initialCapital (res_stats r)) (map yr_return (res_yearlyReturns r))"

text \<open>
  The error that the two roundings of the engine can cause in the compounded value: each
  reported return is within 0.05 of the unformatted one, so each yearly factor
  \<open>1 + return / 100\<close> is within 1/2000 of \<open>end / start\<close>, and the first equity point is
  within 1/2 of the initial capital. \<open>finite_values\<close> reads the numbers of a list of
  returns.
\<close>

fun finite_values :: "jsnum list \<Rightarrow> rat list" where
  "finite_values [] = []"
| "finite_values (Finite x # rs) = x # finite_values rs"
| "finite_values (NonFinite # rs) = finite_values rs"

definition growth :: "rat \<Rightarrow> rat" where
  "growth x = 1 + x / 100"

definition chain_tolerance :: "rat \<Rightarrow> rat list \<Rightarrow> rat" where
  "chain_tolerance c xs =
     \<bar>c\<bar> * (prod_list (map (\<lambda>x. \<bar>growth x\<bar> + 1 / 2000) xs) - prod_list (map (\<lambda>x. \<bar>growth x\<bar>) xs))
     + 1 / 2 * prod_list (map (\<lambda>x. \<bar>growth x\<bar>) xs)"

subsection \<open>Concrete inputs\<close>

text \<open>The configuration the panel starts with (line 8), with a fixed end date.\<close>

definition default_config :: config where
  "default_config =
     \<lparr>startDate = ''2014-01-01'', endDate = ''2026-11-03'', initialLots = 1,
      initialMarginPercent = 12, transactionCost = 1800, compoundingFactor = 200,
      isCompounding = True, neverCompound = False\<rparr>"

text \<open>An observation of the older data format, without \<open>expiry_near_date\<close>.\<close>

definition obs :: "string \<Rightarrow> rat \<Rightarrow> rat \<Rightarrow> string \<Rightarrow> observation" where
  "obs d pn pf e =
     \<lparr>date = d, price_near = pn, price_far = pf, expiry_near = e, expiry_near_date = None\<rparr>"

text \<open>
  The example of \<^verbatim>\<open>ROLLOVER_FIX_SUMMARY.md\<close>: the near contract expires on 2014-02-05, the
  next observation is dated 2014-03-07 and carries the next label.
\<close>

definition stale_series :: "observation list" where
  "stale_series =
     [\<lparr>date = ''2014-02-05'', price_near = 100, price_far = 101,
       expiry_near = ''05Feb2014'', expiry_near_date = Some ''2014-02-05''\<rparr>,
      \<lparr>date = ''2014-03-07'', price_near = 102, price_far = 103,
       expiry_near = ''05Apr2014'', expiry_near_date = Some ''2014-04-05''\<rparr>]"

text \<open>The three-day scenario of the specification, with the default compounding settings.\<close>

definition scenario_config :: config where
  "scenario_config =
     \<lparr>startDate = ''2014-01-01'', endDate = ''2026-11-03'', initialLots = 1,
      initialMarginPercent = 10, transactionCost = 50, compoundingFactor = 200,
      isCompounding = True, neverCompound = False\<rparr>"

definition scenario_series :: "observation list" where
  "scenario_series =
     [obs ''2020-01-01'' 100 101 ''A'', obs ''2020-01-02'' 102 103 ''A'',
      obs ''2020-01-03'' 102 104 ''B'']"

text \<open>A day on which a rollover and a compounding event both happen.\<close>

definition both_config :: config where
  "both_config =
     \<lparr>startDate = ''2014-01-01'', endDate = ''2026-11-03'', initialLots = 1,
      initialMarginPercent = 10, transactionCost = 50, compoundingFactor = 10,
      isCompounding = True, neverCompound = False\<rparr>"

definition both_series :: "observation list" where
  "both_series = [obs ''2020-01-01'' 100 101 ''A'', obs ''2020-01-02'' 105 107 ''B'']"

text \<open>A day whose equity is exactly three times the baseline capital of 1000.\<close>

definition compounding_series :: "observation list" where
  "compounding_series = [obs ''2020-01-01'' 100 101 ''A'', obs ''2020-01-02'' 120 121 ''A'']"

text \<open>The output of the run on \<open>compounding_series\<close>.\<close>

definition compounding_run :: results where
  "compounding_run =
     \<lparr>res_stats =
        \<lparr>st_initialCapital = 1000, st_finalCapital = 3000, st_totalReturn = Finite 200,
         st_avgAnnualRet = Finite 200, st_maxDD = 0, st_maxLots = 2\<rparr>,
      res_equityCurve =
        [\<lparr>ep_date = ''2020-01-01'', ep_equity = 1000, ep_lots = 1, ep_drawdown = 0\<rparr>,
         \<lparr>ep_date = ''2020-01-02'', ep_equity = 3000, ep_lots = 2, ep_drawdown = 0\<rparr>],
      res_drawdownCurve =
        [\<lparr>dp_date = ''2020-01-01'', dp_drawdown = 0\<rparr>,
         \<lparr>dp_date = ''2020-01-02'', dp_drawdown = 0\<rparr>],
      res_yearlyReturns = [\<lparr>yr_year = ''2020'', yr_return = Finite 200\<rparr>],
      res_tradeLog =
        [\<lparr>tr_date = ''2020-01-02'', tr_type = ''Compounding'',
          tr_contracts = ''Position Doubled'', tr_sellPrice = None, tr_buyPrice = None,
          tr_lots = 2, tr_grossPnL = None, tr_cost = None, tr_netPnL = None,
          tr_equity = 3000, tr_note = Some ''Profit Target Hit''\<rparr>]\<rparr>"

text \<open>A fall of the near price by a fifth, with the default margin of 12 percent.\<close>

definition crash_series :: "observation list" where
  "crash_series = [obs ''2020-01-01'' 100 101 ''A'', obs ''2020-01-02'' 80 81 ''A'']"

text \<open>The output of the run on the three-day scenario.\<close>

definition scenario_run :: results where
  "scenario_run =
     \<lparr>res_stats =
        \<lparr>st_initialCapital = 1000, st_finalCapital = 1050, st_totalReturn = Finite 5,
         st_avgAnnualRet = Finite 5, st_maxDD = 25 / 2, st_maxLots = 1\<rparr>,
      res_equityCurve =
        [\<lparr>ep_date = ''2020-01-01'', ep_equity = 1000, ep_lots = 1, ep_drawdown = 0\<rparr>,
         \<lparr>ep_date = ''2020-01-02'', ep_equity = 1200, ep_lots = 1, ep_drawdown = 0\<rparr>,
         \<lparr>ep_date = ''2020-01-03'', ep_equity = 1050, ep_lots = 1, ep_drawdown = 25 / 2\<rparr>],
      res_drawdownCurve =
        [\<lparr>dp_date = ''2020-01-01'', dp_drawdown = 0\<rparr>,
         \<lparr>dp_date = ''2020-01-02'', dp_drawdown = 0\<rparr>,
         \<lparr>dp_date = ''2020-01-03'', dp_drawdown = 25 / 2\<rparr>],
      res_yearlyReturns = [\<lparr>yr_year = ''2020'', yr_return = Finite 5\<rparr>],
      res_tradeLog =
        [\<lparr>tr_date = ''2020-01-03'', tr_type = ''Rollover'',
          tr_contracts = ''A '' @ arrow @ '' B'',
          tr_sellPrice = Some 102, tr_buyPrice = Some 103, tr_lots = 1,
          tr_grossPnL = Some 200, tr_cost = Some 50, tr_netPnL = Some 150,
          tr_equity = 1150, tr_note = None\<rparr>]\<rparr>"

text \<open>A compounding threshold of 0 percent, on two days of unchanged prices.\<close>

definition zero_factor_config :: config where
  "zero_factor_config =
     \<lparr>startDate = ''2014-01-01'', endDate = ''2026-11-03'', initialLots = 1,
      initialMarginPercent = 12, transactionCost = 1800, compoundingFactor = 0,
      isCompounding = True, neverCompound = False\<rparr>"

definition flat_series :: "observation list" where
  "flat_series = [obs ''2020-12-30'' 100 101 ''A'', obs ''2020-12-31'' 100 101 ''A'']"

text \<open>
  With the default margin of 12 percent: a year that ends with equity exactly 0, and a year
  that ends with negative equity.
\<close>

definition wipeout_series :: "observation list" where
  "wipeout_series =
     [obs ''2020-12-30'' 100 101 ''A'', obs ''2020-12-31'' 88 89 ''A'',
      obs ''2021-01-01'' 90 91 ''A'']"

definition rebound_series :: "observation list" where
  "rebound_series =
     [obs ''2020-12-30'' 100 101 ''A'', obs ''2020-12-31'' 80 81 ''A'',
      obs ''2021-01-04'' 100 101 ''A'']"

text \<open>A negative lot count, which the number field of the panel accepts.\<close>

definition negative_lots_config :: config where
  "negative_lots_config =
     \<lparr>startDate = ''2014-01-01'', endDate = ''2026-11-03'', initialLots = - 1,
      initialMarginPercent = 12, transactionCost = 1800, compoundingFactor = 200,
      isCompounding = True, neverCompound = False\<rparr>"

text \<open>
  A year that ends with equity 400 after starting from 1000000, and the output of the run
  on it (margin 10 percent, one lot).
\<close>

definition rounding_series :: "observation list" where
  "rounding_series =
     [obs ''2020-12-30'' 100000 100100 ''A'', obs ''2020-12-31'' 90004 90100 ''A'',
      obs ''2021-01-04'' 100000 100100 ''A'']"

definition rounding_run :: results where
  "rounding_run =
     \<lparr>res_stats =
        \<lparr>st_initialCapital = 1000000, st_finalCapital = 1000000, st_totalReturn = Finite 0,
         st_avgAnnualRet = Finite 124900, st_maxDD = 2499 / 25, st_maxLots = 1\<rparr>,
      res_equityCurve =
        [\<lparr>ep_date = ''2020-12-30'', ep_equity = 1000000, ep_lots = 1, ep_drawdown = 0\<rparr>,
         \<lparr>ep_date = ''2020-12-31'', ep_equity = 400, ep_lots = 1, ep_drawdown = 2499 / 25\<rparr>,
         \<lparr>ep_date = ''2021-01-04'', ep_equity = 1000000, ep_lots = 1, ep_drawdown = 0\<rparr>],
      res_drawdownCurve =
        [\<lparr>dp_date = ''2020-12-30'', dp_drawdown = 0\<rparr>,
         \<lparr>dp_date = ''2020-12-31'', dp_drawdown = 2499 / 25\<rparr>,
         \<lparr>dp_date = ''2021-01-04'', dp_drawdown = 0\<rparr>],
      res_yearlyReturns =
        [\<lparr>yr_year = ''2020'', yr_return = Finite (- 100)\<rparr>,
         \<lparr>yr_year = ''2021'', yr_return = Finite 249900\<rparr>],
      res_tradeLog = []\<rparr>"

text \<open>No margin at all: the initial capital, and with it the peak equity, is 0.\<close>

definition zero_margin_config :: config where
  "zero_margin_config =
     \<lparr>startDate = ''2014-01-01'', endDate = ''2026-11-03'', initialLots = 1,
      initialMarginPercent = 0, transactionCost = 1800, compoundingFactor = 200,
      isCompounding = False, neverCompound = True\<rparr>"

definition zero_margin_run :: results where
  "zero_margin_run =
     \<lparr>res_stats =
        \<lparr>st_initialCapital = 0, st_finalCapital = 0, st_totalReturn = NonFinite,
         st_avgAnnualRet = NonFinite, st_maxDD = 0, st_maxLots = 1\<rparr>,
      res_equityCurve =
        [\<lparr>ep_date = ''2020-12-30'', ep_equity = 0, ep_lots = 1, ep_drawdown = 0\<rparr>,
         \<lparr>ep_date = ''2020-12-31'', ep_equity = 0, ep_lots = 1, ep_drawdown = 0\<rparr>],
      res_drawdownCurve =
        [\<lparr>dp_date = ''2020-12-30'', dp_drawdown = 0\<rparr>,
         \<lparr>dp_date = ''2020-12-31'', dp_drawdown = 0\<rparr>],
      res_yearlyReturns = [\<lparr>yr_year = ''2020'', yr_return = NonFinite\<rparr>],
      res_tradeLog = []\<rparr>"

section \<open>Basic facts\<close>

lemma floor_rat_numeral [simp]:
  "\<lfloor>numeral a / numeral b :: rat\<rfloor> = numeral a div numeral b"
  using floor_divide_of_int_eq [of "numeral a" "numeral b", where ?'a = rat] by simp

lemma floor_rat_neg_numeral [simp]:
  "\<lfloor>- (numeral a / numeral b) :: rat\<rfloor> = - numeral a div numeral b"
  using floor_divide_of_int_eq [of "- numeral a" "numeral b", where ?'a = rat] by simp

lemma floor_rat_one_numeral [simp]:
  "\<lfloor>1 / numeral b :: rat\<rfloor> = 1 div numeral b"
  using floor_divide_of_int_eq [of 1 "numeral b", where ?'a = rat] by simp

lemmas engine_defs =
  initialCapital_def init_state_def CONTRACT_MULTIPLIER_def rollover_def check_rollover_def
  mark_to_market_def compounding_check_def new_peak_def drawdown_def drawdown_tracking_def
  day_step_def Math_round_def toFixed_def arrow_def

lemma loop_append:
  "loop cfg prev (xs @ ys) s =
     loop cfg (if xs = [] then prev else Some (last xs)) ys (loop cfg prev xs s)"
  by (induction xs arbitrary: prev s) auto

lemma loop_snoc:
  "loop cfg prev (xs @ [x]) s =
     day_step cfg (if xs = [] then prev else Some (last xs)) x (loop cfg prev xs s)"
  by (simp add: loop_append)

lemma equitySeries_day_step:
  "equitySeries (day_step cfg prev today s) =
     equitySeries s @
       [\<lparr>ep_date = date today,
         ep_equity = Math_round (mark_to_market today (check_rollover cfg prev today s)),
         ep_lots = currentLots (day_step cfg prev today s),
         ep_drawdown = toFixed 2 (drawdown (peakEquity (day_step cfg prev today s))
                          (mark_to_market today (check_rollover cfg prev today s)))\<rparr>]"
  by (simp add: day_step_def drawdown_tracking_def compounding_check_def check_rollover_def
      rollover_def Let_def split: option.split)

lemma length_equitySeries_loop:
  "length (equitySeries (loop cfg prev xs s)) = length (equitySeries s) + length xs"
  by (induction xs arbitrary: prev s) (auto simp: equitySeries_day_step)

lemmas run_defs =
  runBacktest_def simulate_def final_stats_def calculateYoY_def build_yearsMap_def year_of_def
  yoy_ret_def in_window_def Math_max_def

lemma state_before_0: "state_before cfg data 0 = init_state cfg (data ! 0)"
  by (simp add: state_before_def)

lemma state_before_Suc:
  assumes "i < length data"
  shows "state_before cfg data (Suc i) =
           day_step cfg (prev_of data i) (data ! i) (state_before cfg data i)"
proof -
  have "take (Suc i) data = take i data @ [data ! i]"
    using assms by (simp add: take_Suc_conv_app_nth)
  moreover have "last (take i data) = data ! (i - 1)" if "0 < i"
    using that assms by (cases i) (simp_all add: take_Suc_conv_app_nth)
  ultimately show ?thesis
    using assms by (auto simp: state_before_def loop_snoc prev_of_def)
qed

lemma state_before_length: "state_before cfg data (length data) = simulate cfg data"
  by (simp add: state_before_def simulate_def)

text \<open>A run has output exactly when two or more observations lie in the window.\<close>

lemma runBacktest_Some_iff:
  "runBacktest cfg fullData = Some r \<longleftrightarrow>
     (\<exists>fd. fullData = Some fd \<and> 2 \<le> length (filter (in_window cfg) fd) \<and>
        r = final_stats cfg (filter (in_window cfg) fd ! 0) (simulate cfg (filter (in_window cfg) fd)))"
proof (cases fullData)
  case None
  then show ?thesis by (simp add: runBacktest_def)
next
  case (Some fd)
  have "equitySeries (simulate cfg (filter (in_window cfg) fd)) \<noteq> []"
    if "2 \<le> length (filter (in_window cfg) fd)"
    using that length_equitySeries_loop [of cfg None "filter (in_window cfg) fd"
        "init_state cfg (filter (in_window cfg) fd ! 0)"]
    by (auto simp: simulate_def)
  with Some show ?thesis
    by (auto simp: runBacktest_def Let_def not_less)
qed

lemma check_rollover_unchanged [simp]:
  "currentLots (check_rollover cfg prev today s) = currentLots s"
  "baselineCapital (check_rollover cfg prev today s) = baselineCapital s"
  "peakEquity (check_rollover cfg prev today s) = peakEquity s"
  "equitySeries (check_rollover cfg prev today s) = equitySeries s"
  by (simp_all add: check_rollover_def rollover_def Let_def split: option.split)

lemma day_step_cash [simp]:
  "cash (day_step cfg prev today s) = cash (check_rollover cfg prev today s)"
  "entryPrice (day_step cfg prev today s) = entryPrice (check_rollover cfg prev today s)"
  by (simp_all add: day_step_def drawdown_tracking_def compounding_check_def Let_def)

lemma day_step_compounding:
  fixes cfg prev today s
  defines "s1 \<equiv> check_rollover cfg prev today s"
  defines "ce \<equiv> mark_to_market today s1"
  defines "fires \<equiv> isCompounding cfg \<and> \<not> neverCompound cfg \<and>
     ce - baselineCapital s \<ge> (compoundingFactor cfg / 100) * baselineCapital s"
  shows "currentLots (day_step cfg prev today s) = (if fires then currentLots s * 2 else currentLots s)"
    and "baselineCapital (day_step cfg prev today s) = (if fires then ce else baselineCapital s)"
    and "trades (day_step cfg prev today s) =
           trades s1 @
             (if fires then
                [\<lparr>tr_date = date today, tr_type = ''Compounding'',
                  tr_contracts = ''Position Doubled'', tr_sellPrice = None, tr_buyPrice = None,
                  tr_lots = currentLots s * 2, tr_grossPnL = None, tr_cost = None,
                  tr_netPnL = None, tr_equity = ce, tr_note = Some ''Profit Target Hit''\<rparr>]
              else [])"
  unfolding s1_def ce_def fires_def
  by (auto simp: day_step_def drawdown_tracking_def compounding_check_def Let_def)

lemma check_rollover_fires:
  assumes "expiry_near today \<noteq> expiry_near p"
  shows "check_rollover cfg (Some p) today s = rollover cfg p today s"
  using assms by (simp add: check_rollover_def)

section \<open>Insufficient data\<close>

text \<open>
  C5. If fewer than two observations of the input series lie in the window
  \<open>startDate \<le> date \<le> endDate\<close>, the run returns without calling any setter: there is no
  statistics record, no equity curve and no trade log. The function is total, so nothing
  is raised on the way.
\<close>

theorem insufficient_data_no_output:
  "length (filter (in_window cfg) fd) < 2 \<Longrightarrow> runBacktest cfg (Some fd) = None"
  by (simp add: runBacktest_def Let_def)

theorem insufficient_data_no_output_witness:
  "length (filter (in_window default_config)
     [obs ''2013-12-31'' 100 101 ''05Feb2014'', obs ''2014-01-02'' 100 101 ''05Feb2014'']) < 2 \<and>
   runBacktest default_config
     (Some [obs ''2013-12-31'' 100 101 ''05Feb2014'', obs ''2014-01-02'' 100 101 ''05Feb2014'']) = None"
  using insufficient_data_no_output [of default_config
     "[obs ''2013-12-31'' 100 101 ''05Feb2014'', obs ''2014-01-02'' 100 101 ''05Feb2014'']"]
  by (simp add: in_window_def default_config_def obs_def)

section \<open>Rollover\<close>

text \<open>
  C1. The documented contract is that a change of the near-contract label is executed as a
  rollover only when the day's date is no later than the expiry date recorded for the
  previous day's near contract, and that a label change found after that date records no
  Rollover trade. The engine does not read \<open>expiry_near_date\<close>: on the series of
  \<^verbatim>\<open>ROLLOVER_FIX_SUMMARY.md\<close>, where the label changes 30 days after the recorded expiry, it
  records a Rollover trade dated 2014-03-07 at the prices of 2014-02-05.
\<close>

theorem stale_rollover_executed:
  "map_option (map (\<lambda>t. (tr_date t, tr_type t, tr_sellPrice t, tr_buyPrice t)) \<circ> res_tradeLog)
     (runBacktest default_config (Some stale_series)) =
   Some [(''2014-03-07'', ''Rollover'', Some 100, Some 101)]"
  by (simp add: run_defs engine_defs default_config_def stale_series_def Let_def)

text \<open>
  C2. When iteration \<open>i\<close> finds a changed near-contract label, the position is closed at
  the previous day's near price and re-opened at the previous day's far price:
  \<open>grossPnL = (prev.price_near - entryPrice) * CONTRACT_MULTIPLIER * currentLots\<close>,
  \<open>cost = transactionCost * currentLots\<close>, the net amount \<open>grossPnL - cost\<close> is added to
  cash, the entry price becomes the previous day's far price, and a Rollover trade with
  these figures is appended. On the three-day scenario the equity curve is 1000, 1200, 1050,
  the rollover of day 3 has gross 200, cost 50, net 150, and leaves cash 1150 and entry
  price 103.
\<close>

theorem rollover_execution:
  fixes cfg data i
  defines "s \<equiv> state_before cfg data i"
  defines "grossPnL \<equiv> (price_near (data ! (i - 1)) - entryPrice s) * CONTRACT_MULTIPLIER * currentLots s"
  defines "cost \<equiv> transactionCost cfg * currentLots s"
  assumes "0 < i" and "i < length data"
    and "expiry_near (data ! i) \<noteq> expiry_near (data ! (i - 1))"
  shows "cash (state_before cfg data (Suc i)) = cash s + (grossPnL - cost) \<and>
         entryPrice (state_before cfg data (Suc i)) = price_far (data ! (i - 1)) \<and>
         trades (after_rollover cfg data i) =
           trades s @
             [\<lparr>tr_date = date (data ! i), tr_type = ''Rollover'',
               tr_contracts = expiry_near (data ! (i - 1)) @ '' '' @ arrow @ '' '' @ expiry_near (data ! i),
               tr_sellPrice = Some (price_near (data ! (i - 1))),
               tr_buyPrice = Some (price_far (data ! (i - 1))),
               tr_lots = currentLots s, tr_grossPnL = Some grossPnL, tr_cost = Some cost,
               tr_netPnL = Some (grossPnL - cost), tr_equity = cash s + (grossPnL - cost),
               tr_note = None\<rparr>] \<and>
         map_option (map ep_equity \<circ> res_equityCurve)
             (runBacktest scenario_config (Some scenario_series)) = Some [1000, 1200, 1050] \<and>
         map_option res_tradeLog (runBacktest scenario_config (Some scenario_series)) =
           Some [\<lparr>tr_date = ''2020-01-03'', tr_type = ''Rollover'',
                  tr_contracts = ''A '' @ arrow @ '' B'',
                  tr_sellPrice = Some 102, tr_buyPrice = Some 103, tr_lots = 1,
                  tr_grossPnL = Some 200, tr_cost = Some 50, tr_netPnL = Some 150,
                  tr_equity = 1150, tr_note = None\<rparr>] \<and>
         cash (simulate scenario_config scenario_series) = 1150 \<and>
         entryPrice (simulate scenario_config scenario_series) = 103"
proof -
  have prev: "prev_of data i = Some (data ! (i - 1))"
    using assms by (simp add: prev_of_def)
  have roll: "after_rollover cfg data i = rollover cfg (data ! (i - 1)) (data ! i) s"
    using assms by (simp add: after_rollover_def prev check_rollover_fires)
  have step: "state_before cfg data (Suc i) = day_step cfg (Some (data ! (i - 1))) (data ! i) s"
    using assms by (simp add: state_before_Suc prev)
  have "cash (state_before cfg data (Suc i)) = cash s + (grossPnL - cost)"
    using assms by (simp add: step check_rollover_fires rollover_def Let_def)
  moreover have "entryPrice (state_before cfg data (Suc i)) = price_far (data ! (i - 1))"
    using assms by (simp add: step check_rollover_fires rollover_def Let_def)
  moreover have "trades (after_rollover cfg data i) =
           trades s @
             [\<lparr>tr_date = date (data ! i), tr_type = ''Rollover'',
               tr_contracts = expiry_near (data ! (i - 1)) @ '' '' @ arrow @ '' '' @ expiry_near (data ! i),
               tr_sellPrice = Some (price_near (data ! (i - 1))),
               tr_buyPrice = Some (price_far (data ! (i - 1))),
               tr_lots = currentLots s, tr_grossPnL = Some grossPnL, tr_cost = Some cost,
               tr_netPnL = Some (grossPnL - cost), tr_equity = cash s + (grossPnL - cost),
               tr_note = None\<rparr>]"
    unfolding roll grossPnL_def cost_def by (simp add: rollover_def Let_def)
  moreover have "map_option (map ep_equity \<circ> res_equityCurve)
             (runBacktest scenario_config (Some scenario_series)) = Some [1000, 1200, 1050]"
    by (simp add: run_defs engine_defs scenario_config_def scenario_series_def obs_def Let_def)
  moreover have "map_option res_tradeLog (runBacktest scenario_config (Some scenario_series)) =
           Some [\<lparr>tr_date = ''2020-01-03'', tr_type = ''Rollover'',
                  tr_contracts = ''A '' @ arrow @ '' B'',
                  tr_sellPrice = Some 102, tr_buyPrice = Some 103, tr_lots = 1,
                  tr_grossPnL = Some 200, tr_cost = Some 50, tr_netPnL = Some 150,
                  tr_equity = 1150, tr_note = None\<rparr>]"
    by (simp add: run_defs engine_defs scenario_config_def scenario_series_def obs_def Let_def)
  moreover have "cash (simulate scenario_config scenario_series) = 1150"
    by (simp add: run_defs engine_defs scenario_config_def scenario_series_def obs_def Let_def)
  moreover have "entryPrice (simulate scenario_config scenario_series) = 103"
    by (simp add: run_defs engine_defs scenario_config_def scenario_series_def obs_def Let_def)
  ultimately show ?thesis by blast
qed

lemma scenario_state_2:
  "state_before scenario_config scenario_series 2 =
     \<lparr>currentLots = 1, cash = 1000, entryPrice = 100, baselineCapital = 1000, peakEquity = 1200,
      equitySeries = [\<lparr>ep_date = ''2020-01-01'', ep_equity = 1000, ep_lots = 1, ep_drawdown = 0\<rparr>,
                      \<lparr>ep_date = ''2020-01-02'', ep_equity = 1200, ep_lots = 1, ep_drawdown = 0\<rparr>],
      drawdownSeries = [\<lparr>dp_date = ''2020-01-01'', dp_drawdown = 0\<rparr>,
                        \<lparr>dp_date = ''2020-01-02'', dp_drawdown = 0\<rparr>],
      trades = []\<rparr>"
  by (simp add: state_before_def numeral_2_eq_2 engine_defs scenario_config_def scenario_series_def obs_def Let_def)

theorem rollover_execution_witness:
  "(0::nat) < 2 \<and> 2 < length scenario_series \<and>
   expiry_near (scenario_series ! 2) \<noteq> expiry_near (scenario_series ! (2 - 1)) \<and>
   cash (state_before scenario_config scenario_series (Suc 2)) = 1150 \<and>
   entryPrice (state_before scenario_config scenario_series (Suc 2)) = 103"
proof -
  have h: "(0::nat) < 2" "2 < length scenario_series"
    "expiry_near (scenario_series ! 2) \<noteq> expiry_near (scenario_series ! (2 - 1))"
    by (simp_all add: scenario_series_def obs_def)
  show ?thesis
    using h rollover_execution [OF h, of scenario_config]
    apply (simp only: scenario_state_2)
    apply (simp add: CONTRACT_MULTIPLIER_def scenario_config_def scenario_series_def obs_def)
    done
qed

section \<open>Compounding\<close>

text \<open>
  C3. In every iteration the compounding event happens exactly when \<open>isCompounding\<close> is
  set, \<open>neverCompound\<close> is not, and
  \<open>currentEquity - baselineCapital \<ge> (compoundingFactor / 100) * baselineCapital\<close>. When it
  happens the lot count is doubled, the baseline capital becomes the day's equity, and one
  Compounding trade dated that day, without price fields, is appended; otherwise lots,
  baseline and trades stay as the rollover test left them. The equity tested is the one
  computed after the day's rollover, and at most one Compounding trade is appended per day.
  With a baseline of 1000 and a factor of 200 the event happens exactly when the equity is
  at least 3000.
\<close>

theorem compounding_event:
  fixes cfg data i
  defines "s \<equiv> state_before cfg data i"
  defines "ce \<equiv> equity_at cfg data i"
  defines "fires \<equiv> isCompounding cfg \<and> \<not> neverCompound cfg \<and>
     ce - baselineCapital s \<ge> (compoundingFactor cfg / 100) * baselineCapital s"
  assumes "i < length data"
  shows "currentLots (state_before cfg data (Suc i)) = (if fires then currentLots s * 2 else currentLots s) \<and>
         baselineCapital (state_before cfg data (Suc i)) = (if fires then ce else baselineCapital s) \<and>
         trades (state_before cfg data (Suc i)) =
           trades (after_rollover cfg data i) @
             (if fires then
                [\<lparr>tr_date = date (data ! i), tr_type = ''Compounding'',
                  tr_contracts = ''Position Doubled'', tr_sellPrice = None, tr_buyPrice = None,
                  tr_lots = currentLots s * 2, tr_grossPnL = None, tr_cost = None,
                  tr_netPnL = None, tr_equity = ce, tr_note = Some ''Profit Target Hit''\<rparr>]
              else []) \<and>
         (baselineCapital s = 1000 \<and> compoundingFactor cfg = 200 \<and> isCompounding cfg \<and>
            \<not> neverCompound cfg \<longrightarrow> (fires \<longleftrightarrow> 3000 \<le> ce))"
proof -
  note step = state_before_Suc [OF assms(4), of cfg]
  have "currentLots (state_before cfg data (Suc i)) = (if fires then currentLots s * 2 else currentLots s)"
    unfolding step fires_def ce_def s_def equity_at_def after_rollover_def
    by (rule day_step_compounding(1))
  moreover have "baselineCapital (state_before cfg data (Suc i)) = (if fires then ce else baselineCapital s)"
    unfolding step fires_def ce_def s_def equity_at_def after_rollover_def
    by (rule day_step_compounding(2))
  moreover have "trades (state_before cfg data (Suc i)) =
           trades (after_rollover cfg data i) @
             (if fires then
                [\<lparr>tr_date = date (data ! i), tr_type = ''Compounding'',
                  tr_contracts = ''Position Doubled'', tr_sellPrice = None, tr_buyPrice = None,
                  tr_lots = currentLots s * 2, tr_grossPnL = None, tr_cost = None,
                  tr_netPnL = None, tr_equity = ce, tr_note = Some ''Profit Target Hit''\<rparr>]
              else [])"
    unfolding step fires_def ce_def s_def equity_at_def after_rollover_def
    by (rule day_step_compounding(3))
  moreover have "baselineCapital s = 1000 \<and> compoundingFactor cfg = 200 \<and> isCompounding cfg \<and>
            \<not> neverCompound cfg \<longrightarrow> (fires \<longleftrightarrow> 3000 \<le> ce)"
    by (auto simp: fires_def)
  ultimately show ?thesis by blast
qed

lemma compounding_state_1:
  "state_before scenario_config compounding_series 1 =
     \<lparr>currentLots = 1, cash = 1000, entryPrice = 100, baselineCapital = 1000, peakEquity = 1000,
      equitySeries = [\<lparr>ep_date = ''2020-01-01'', ep_equity = 1000, ep_lots = 1, ep_drawdown = 0\<rparr>],
      drawdownSeries = [\<lparr>dp_date = ''2020-01-01'', dp_drawdown = 0\<rparr>],
      trades = []\<rparr>"
  by (simp add: state_before_def engine_defs scenario_config_def compounding_series_def obs_def Let_def)

lemma compounding_equity_1: "equity_at scenario_config compounding_series 1 = 3000"
  unfolding equity_at_def after_rollover_def compounding_state_1
  by (simp add: prev_of_def engine_defs scenario_config_def compounding_series_def obs_def Let_def)

theorem compounding_event_witness:
  "(1::nat) < length compounding_series \<and>
   baselineCapital (state_before scenario_config compounding_series 1) = 1000 \<and>
   compoundingFactor scenario_config = 200 \<and> isCompounding scenario_config \<and>
   \<not> neverCompound scenario_config \<and>
   3000 \<le> equity_at scenario_config compounding_series 1 \<and>
   currentLots (state_before scenario_config compounding_series (Suc 1)) = 2 \<and>
   baselineCapital (state_before scenario_config compounding_series (Suc 1)) = 3000"
proof -
  have h: "(1::nat) < length compounding_series"
    by (simp add: compounding_series_def)
  show ?thesis
    using h compounding_event [OF h, of scenario_config]
    apply (simp only: compounding_state_1 compounding_equity_1)
    apply (simp add: scenario_config_def)
    done
qed

section \<open>The equity curve\<close>

text \<open>The equity points of a run, day by day.\<close>

lemma equitySeries_state_before:
  assumes "n \<le> length data"
  shows "equitySeries (state_before cfg data n) =
           map (\<lambda>i. \<lparr>ep_date = date (data ! i),
                      ep_equity = Math_round (equity_at cfg data i),
                      ep_lots = currentLots (state_before cfg data (Suc i)),
                      ep_drawdown = toFixed 2 (drawdown (peakEquity (state_before cfg data (Suc i)))
                                       (equity_at cfg data i))\<rparr>) [0..<n]"
  using assms
proof (induction n)
  case 0
  then show ?case by (simp add: state_before_0 init_state_def)
next
  case (Suc n)
  then have n: "n < length data" by simp
  have "equitySeries (state_before cfg data (Suc n)) =
          equitySeries (state_before cfg data n) @
            [\<lparr>ep_date = date (data ! n),
              ep_equity = Math_round (equity_at cfg data n),
              ep_lots = currentLots (state_before cfg data (Suc n)),
              ep_drawdown = toFixed 2 (drawdown (peakEquity (state_before cfg data (Suc n)))
                               (equity_at cfg data n))\<rparr>]"
    by (simp add: state_before_Suc [OF n] equitySeries_day_step equity_at_def after_rollover_def)
  with Suc show ?case by simp
qed

lemma equityCurve_run:
  assumes "runBacktest cfg (Some fd) = Some r"
  shows "res_equityCurve r =
           equitySeries (state_before cfg (filter (in_window cfg) fd)
             (length (filter (in_window cfg) fd)))"
  using assms by (auto simp: runBacktest_Some_iff final_stats_def Let_def state_before_length)

lemma equityCurve_length:
  assumes "runBacktest cfg (Some fd) = Some r"
  shows "length (res_equityCurve r) = length (filter (in_window cfg) fd)"
  by (simp add: equityCurve_run [OF assms] equitySeries_state_before)

lemma equityCurve_nth:
  assumes "runBacktest cfg (Some fd) = Some r" and "i < length (filter (in_window cfg) fd)"
  shows "res_equityCurve r ! i =
           \<lparr>ep_date = date (filter (in_window cfg) fd ! i),
            ep_equity = Math_round (equity_at cfg (filter (in_window cfg) fd) i),
            ep_lots = currentLots (state_before cfg (filter (in_window cfg) fd) (Suc i)),
            ep_drawdown = toFixed 2
              (drawdown (peakEquity (state_before cfg (filter (in_window cfg) fd) (Suc i)))
                 (equity_at cfg (filter (in_window cfg) fd) i))\<rparr>"
  using assms(2) by (simp add: equityCurve_run [OF assms(1)] equitySeries_state_before)

lemma currentLots_step:
  assumes "i < length data"
  shows "currentLots (state_before cfg data (Suc i)) = currentLots (state_before cfg data i) \<or>
         currentLots (state_before cfg data (Suc i)) = 2 * currentLots (state_before cfg data i)"
  by (simp add: state_before_Suc [OF assms] day_step_compounding(1))

lemma currentLots_nonneg:
  assumes "0 \<le> initialLots cfg" and "n \<le> length data"
  shows "0 \<le> currentLots (state_before cfg data n)"
  using assms(2)
proof (induction n)
  case 0
  then show ?case using assms(1) by (simp add: state_before_0 init_state_def)
next
  case (Suc n)
  then have "0 \<le> currentLots (state_before cfg data n)" and "n < length data" by simp_all
  then show ?case using currentLots_step [of n data cfg] by auto
qed

text \<open>
  C6, with the monotonicity restricted to a non-negative \<open>initialLots\<close>. On consecutive
  equity points of a run the recorded lot count either stays the same or is multiplied by
  exactly 2, for every configuration; when \<open>initialLots\<close> is not negative it therefore
  never decreases.
\<close>

theorem lots_only_double:
  assumes "runBacktest cfg (Some fd) = Some r" and "Suc i < length (res_equityCurve r)"
  shows "(ep_lots (res_equityCurve r ! Suc i) = ep_lots (res_equityCurve r ! i) \<or>
          ep_lots (res_equityCurve r ! Suc i) = 2 * ep_lots (res_equityCurve r ! i)) \<and>
         (0 \<le> initialLots cfg \<longrightarrow>
            ep_lots (res_equityCurve r ! i) \<le> ep_lots (res_equityCurve r ! Suc i))"
proof -
  let ?data = "filter (in_window cfg) fd"
  have len: "Suc i < length ?data"
    using assms by (simp add: equityCurve_length)
  then have i: "i < length ?data" by simp
  have a: "ep_lots (res_equityCurve r ! i) = currentLots (state_before cfg ?data (Suc i))"
    by (simp add: equityCurve_nth [OF assms(1) i])
  have b: "ep_lots (res_equityCurve r ! Suc i) = currentLots (state_before cfg ?data (Suc (Suc i)))"
    by (simp add: equityCurve_nth [OF assms(1) len])
  have step: "currentLots (state_before cfg ?data (Suc (Suc i))) = currentLots (state_before cfg ?data (Suc i)) \<or>
      currentLots (state_before cfg ?data (Suc (Suc i))) = 2 * currentLots (state_before cfg ?data (Suc i))"
    using currentLots_step [OF len] .
  have "0 \<le> currentLots (state_before cfg ?data (Suc i))" if "0 \<le> initialLots cfg"
    using that i by (intro currentLots_nonneg) simp_all
  with step show ?thesis unfolding a b by auto
qed


lemma compounding_run:
  "runBacktest scenario_config (Some compounding_series) = Some compounding_run"
  by (simp add: run_defs engine_defs scenario_config_def compounding_series_def obs_def
      compounding_run_def Let_def)

theorem lots_only_double_witness:
  "runBacktest scenario_config (Some compounding_series) = Some compounding_run \<and>
   Suc 0 < length (res_equityCurve compounding_run) \<and>
   0 \<le> initialLots scenario_config \<and>
   ep_lots (res_equityCurve compounding_run ! Suc 0) = 2 * ep_lots (res_equityCurve compounding_run ! 0) \<and>
   ep_lots (res_equityCurve compounding_run ! 0) \<le> ep_lots (res_equityCurve compounding_run ! Suc 0)"
proof -
  have h: "Suc 0 < length (res_equityCurve compounding_run)"
    by (simp add: compounding_run_def)
  have l: "0 \<le> initialLots scenario_config"
    by (simp add: scenario_config_def)
  show ?thesis
    using lots_only_double [OF compounding_run h] compounding_run h l
    by (simp add: compounding_run_def)
qed

text \<open>
  For a negative \<open>initialLots\<close> the lot count decreases: with \<open>initialLots = -1\<close> the
  initial capital is negative, the compounding test succeeds on both days, and the
  recorded lots are -2 and then -4.
\<close>

theorem lots_decrease_negative:
  "map_option (map ep_lots \<circ> res_equityCurve) (runBacktest negative_lots_config (Some flat_series))
     = Some [- 2, - 4] \<and>
   initialLots negative_lots_config = - 1"
  by (simp add: run_defs engine_defs negative_lots_config_def flat_series_def obs_def Let_def)

section \<open>Equity recorded in the trade log\<close>

text \<open>
  C9. The equity recorded in a Rollover trade is the cash right after the rollover's net
  amount has been added, without the unrealized amount of the position just opened. The
  equity recorded in a Compounding trade is the day's full mark-to-market equity, cash plus
  unrealized. On a day that has both, the two trades are the last two of the day and their
  equities differ by the unrealized amount
  \<open>(today.price_near - prev.price_far) * CONTRACT_MULTIPLIER * currentLots\<close>.
\<close>

theorem trade_equity_bases:
  fixes cfg data i
  defines "s \<equiv> state_before cfg data i"
  defines "s1 \<equiv> after_rollover cfg data i"
  defines "s' \<equiv> state_before cfg data (Suc i)"
  defines "rolls \<equiv> 0 < i \<and> expiry_near (data ! i) \<noteq> expiry_near (data ! (i - 1))"
  defines "fires \<equiv> isCompounding cfg \<and> \<not> neverCompound cfg \<and>
     equity_at cfg data i - baselineCapital s \<ge> (compoundingFactor cfg / 100) * baselineCapital s"
  assumes "i < length data"
  shows "(rolls \<longrightarrow>
            tr_type (last (trades s1)) = ''Rollover'' \<and>
            tr_equity (last (trades s1)) = cash s1 \<and>
            cash s1 = cash s + ((price_near (data ! (i - 1)) - entryPrice s) * CONTRACT_MULTIPLIER * currentLots s
                                - transactionCost cfg * currentLots s)) \<and>
         (fires \<longrightarrow>
            tr_type (last (trades s')) = ''Compounding'' \<and>
            tr_equity (last (trades s')) =
              cash s1 + (price_near (data ! i) - entryPrice s1) * CONTRACT_MULTIPLIER * currentLots s1) \<and>
         (rolls \<and> fires \<longrightarrow>
            trades s' = butlast (trades s1) @ [last (trades s1), last (trades s')] \<and>
            tr_equity (last (trades s')) - tr_equity (last (trades s1)) =
              (price_near (data ! i) - price_far (data ! (i - 1))) * CONTRACT_MULTIPLIER * currentLots s)"
proof -
  note step = state_before_Suc [OF assms(6), of cfg]
  have tr: "trades s' = trades s1 @
             (if fires then
                [\<lparr>tr_date = date (data ! i), tr_type = ''Compounding'',
                  tr_contracts = ''Position Doubled'', tr_sellPrice = None, tr_buyPrice = None,
                  tr_lots = currentLots s * 2, tr_grossPnL = None, tr_cost = None,
                  tr_netPnL = None, tr_equity = equity_at cfg data i,
                  tr_note = Some ''Profit Target Hit''\<rparr>]
              else [])"
    unfolding s'_def step fires_def s_def s1_def equity_at_def after_rollover_def
    by (rule day_step_compounding(3))
  have r: "s1 = rollover cfg (data ! (i - 1)) (data ! i) s" if rolls
    using that unfolding s1_def s_def rolls_def after_rollover_def
    by (simp add: prev_of_def check_rollover_fires)
  have a: "tr_type (last (trades s1)) = ''Rollover'' \<and>
            tr_equity (last (trades s1)) = cash s1 \<and>
            cash s1 = cash s + ((price_near (data ! (i - 1)) - entryPrice s) * CONTRACT_MULTIPLIER * currentLots s
                                - transactionCost cfg * currentLots s) \<and>
            entryPrice s1 = price_far (data ! (i - 1)) \<and> trades s1 \<noteq> []" if rolls
    by (simp add: r [OF that] rollover_def Let_def)
  have b: "tr_type (last (trades s')) = ''Compounding'' \<and>
            tr_equity (last (trades s')) =
              cash s1 + (price_near (data ! i) - entryPrice s1) * CONTRACT_MULTIPLIER * currentLots s1" if fires
    using that by (simp add: tr equity_at_def mark_to_market_def Let_def s1_def)
  have c: "trades s' = butlast (trades s1) @ [last (trades s1), last (trades s')] \<and>
            tr_equity (last (trades s')) - tr_equity (last (trades s1)) =
              (price_near (data ! i) - price_far (data ! (i - 1))) * CONTRACT_MULTIPLIER * currentLots s"
    if "rolls \<and> fires"
  proof -
    from that have rolls fires by simp_all
    have l: "currentLots s1 = currentLots s"
      by (simp add: s1_def s_def after_rollover_def)
    have "trades s' = butlast (trades s1) @ [last (trades s1), last (trades s')]"
      using a [OF \<open>rolls\<close>] \<open>fires\<close> by (simp add: tr)
    moreover have "tr_equity (last (trades s')) - tr_equity (last (trades s1)) =
              (price_near (data ! i) - price_far (data ! (i - 1))) * CONTRACT_MULTIPLIER * currentLots s"
      using a [OF \<open>rolls\<close>] b [OF \<open>fires\<close>] by (simp add: l)
    ultimately show ?thesis by simp
  qed
  from a b c show ?thesis by blast
qed

lemma both_state_1:
  "state_before both_config both_series 1 =
     \<lparr>currentLots = 1, cash = 1000, entryPrice = 100, baselineCapital = 1000, peakEquity = 1000,
      equitySeries = [\<lparr>ep_date = ''2020-01-01'', ep_equity = 1000, ep_lots = 1, ep_drawdown = 0\<rparr>],
      drawdownSeries = [\<lparr>dp_date = ''2020-01-01'', dp_drawdown = 0\<rparr>],
      trades = []\<rparr>"
  by (simp add: state_before_def engine_defs both_config_def both_series_def obs_def Let_def)

lemma both_after_rollover_1:
  "after_rollover both_config both_series 1 =
     \<lparr>currentLots = 1, cash = 950, entryPrice = 101, baselineCapital = 1000, peakEquity = 1000,
      equitySeries = [\<lparr>ep_date = ''2020-01-01'', ep_equity = 1000, ep_lots = 1, ep_drawdown = 0\<rparr>],
      drawdownSeries = [\<lparr>dp_date = ''2020-01-01'', dp_drawdown = 0\<rparr>],
      trades = [\<lparr>tr_date = ''2020-01-02'', tr_type = ''Rollover'',
                 tr_contracts = ''A '' @ arrow @ '' B'',
                 tr_sellPrice = Some 100, tr_buyPrice = Some 101, tr_lots = 1,
                 tr_grossPnL = Some 0, tr_cost = Some 50, tr_netPnL = Some (- 50),
                 tr_equity = 950, tr_note = None\<rparr>]\<rparr>"
  unfolding after_rollover_def both_state_1
  by (simp add: prev_of_def engine_defs both_config_def both_series_def obs_def Let_def)

lemma both_equity_1: "equity_at both_config both_series 1 = 1350"
  unfolding equity_at_def both_after_rollover_1
  by (simp add: engine_defs both_series_def obs_def Let_def)

theorem trade_equity_bases_witness:
  "(1::nat) < length both_series \<and>
   (0::nat) < 1 \<and> expiry_near (both_series ! 1) \<noteq> expiry_near (both_series ! (1 - 1)) \<and>
   isCompounding both_config \<and> \<not> neverCompound both_config \<and>
   equity_at both_config both_series 1 - baselineCapital (state_before both_config both_series 1)
     \<ge> (compoundingFactor both_config / 100) * baselineCapital (state_before both_config both_series 1) \<and>
   tr_equity (last (trades (after_rollover both_config both_series 1))) = 950 \<and>
   tr_equity (last (trades (state_before both_config both_series (Suc 1)))) = 1350"
proof -
  have h: "(1::nat) < length both_series"
    by (simp add: both_series_def)
  have l: "expiry_near (both_series ! 1) \<noteq> expiry_near (both_series ! (1 - 1))"
    by (simp add: both_series_def obs_def)
  show ?thesis
    using h l trade_equity_bases [OF h, of both_config]
    apply (simp only: both_state_1 both_after_rollover_1 both_equity_1)
    apply (simp add: both_config_def both_series_def obs_def CONTRACT_MULTIPLIER_def)
    done
qed

section \<open>Drawdown\<close>

lemma toFixed_0 [simp]: "toFixed f 0 = 0"
  by (simp add: toFixed_def)

lemma toFixed_nonneg: "0 \<le> x \<Longrightarrow> 0 \<le> toFixed f x"
  by (simp add: toFixed_def)

lemma toFixed_2_le_100:
  assumes "0 \<le> x" and "x \<le> 100"
  shows "toFixed 2 x \<le> 100"
proof -
  have "x * 100 + 1 / 2 < of_int 10001"
    using assms by simp
  then have "\<lfloor>x * 100 + 1 / 2\<rfloor> < 10001"
    by (simp only: floor_less_iff)
  then have "\<lfloor>x * 100 + 1 / 2\<rfloor> \<le> 10000" by simp
  then have "(of_int \<lfloor>x * 100 + 1 / 2\<rfloor> :: rat) \<le> of_int 10000"
    by (simp only: of_int_le_iff)
  then show ?thesis
    using assms by (simp add: toFixed_def not_less)
qed

lemma drawdown_nonneg: "ce \<le> peak \<Longrightarrow> 0 \<le> drawdown peak ce"
  by (simp add: drawdown_def)

lemma drawdown_le_100: "0 \<le> ce \<Longrightarrow> drawdown peak ce \<le> 100"
  by (simp add: drawdown_def field_simps)

lemma drawdown_at_peak [simp]: "drawdown peak peak = 0"
  by (simp add: drawdown_def)

lemma drawdown_nonpos_peak: "peak \<le> 0 \<Longrightarrow> drawdown peak ce = 0"
  by (simp add: drawdown_def)

lemma peakEquity_day_step:
  "peakEquity (day_step cfg prev today s) =
     max (peakEquity s) (mark_to_market today (check_rollover cfg prev today s))"
  by (simp add: day_step_def drawdown_tracking_def compounding_check_def new_peak_def Let_def max_def)

lemma peakEquity_state_before_Suc:
  assumes "i < length data"
  shows "peakEquity (state_before cfg data (Suc i)) =
           max (peakEquity (state_before cfg data i)) (equity_at cfg data i)"
  by (simp add: state_before_Suc [OF assms] peakEquity_day_step equity_at_def after_rollover_def)

lemma equity_at_0: "equity_at cfg data 0 = initialCapital cfg (data ! 0)"
  by (simp add: equity_at_def after_rollover_def prev_of_def check_rollover_def state_before_0
      mark_to_market_def init_state_def)

lemma peak_running_max:
  assumes "i < length data"
  shows "peakEquity (state_before cfg data (Suc i)) = Max (equity_at cfg data ` {..i})"
  using assms
proof (induction i)
  case 0
  then show ?case
    by (simp add: peakEquity_state_before_Suc state_before_0 init_state_def equity_at_0)
next
  case (Suc i)
  then have IH: "peakEquity (state_before cfg data (Suc i)) = Max (equity_at cfg data ` {..i})"
    by simp
  have "Max (equity_at cfg data ` {..Suc i}) =
          max (equity_at cfg data (Suc i)) (Max (equity_at cfg data ` {..i}))"
    by (simp add: atMost_Suc)
  with Suc.prems IH show ?case
    by (simp add: peakEquity_state_before_Suc [of "Suc i"] max.commute)
qed

text \<open>
  C7, with the upper bound restricted to days of non-negative equity. For every equity
  point of a run, the recorded drawdown is
  \<open>(peakEquity - currentEquity) / peakEquity * 100\<close> formatted to two decimals, with
  \<open>peakEquity\<close> the maximum of the equities up to that day, and 0 when
  \<open>peakEquity \<le> 0\<close>. It is never negative, it is 0 on a day whose equity equals the peak,
  and it is at most 100 on every day whose equity is not negative. (When the equity is
  negative the drawdown exceeds 100, as the next theorem shows.)
\<close>

theorem drawdown_bounds:
  fixes cfg fd r i
  defines "data \<equiv> filter (in_window cfg) fd"
  defines "ce \<equiv> equity_at cfg data i"
  defines "peak \<equiv> peakEquity (state_before cfg data (Suc i))"
  assumes "runBacktest cfg (Some fd) = Some r" and "i < length (res_equityCurve r)"
  shows "ep_equity (res_equityCurve r ! i) = Math_round ce \<and>
         peak = Max (equity_at cfg data ` {..i}) \<and>
         ep_drawdown (res_equityCurve r ! i) =
           toFixed 2 (if peak > 0 then ((peak - ce) / peak) * 100 else 0) \<and>
         0 \<le> ep_drawdown (res_equityCurve r ! i) \<and>
         (0 \<le> ce \<longrightarrow> ep_drawdown (res_equityCurve r ! i) \<le> 100) \<and>
         (ce = peak \<longrightarrow> ep_drawdown (res_equityCurve r ! i) = 0) \<and>
         (peak \<le> 0 \<longrightarrow> ep_drawdown (res_equityCurve r ! i) = 0)"
proof -
  have i: "i < length data"
    using assms(4,5) by (simp add: equityCurve_length data_def)
  have pt: "res_equityCurve r ! i =
      \<lparr>ep_date = date (data ! i), ep_equity = Math_round ce,
       ep_lots = currentLots (state_before cfg data (Suc i)),
       ep_drawdown = toFixed 2 (drawdown peak ce)\<rparr>"
    using equityCurve_nth [OF assms(4), of i] i by (simp add: data_def ce_def peak_def)
  have mx: "peak = Max (equity_at cfg data ` {..i})"
    unfolding peak_def by (rule peak_running_max [OF i])
  have le: "ce \<le> peak"
    unfolding peak_def ce_def by (simp add: peakEquity_state_before_Suc [OF i])
  have "0 \<le> toFixed 2 (drawdown peak ce)"
    by (intro toFixed_nonneg drawdown_nonneg le)
  moreover have "toFixed 2 (drawdown peak ce) \<le> 100" if "0 \<le> ce"
    by (intro toFixed_2_le_100 drawdown_nonneg drawdown_le_100 le that)
  moreover have "toFixed 2 (drawdown peak ce) = 0" if "ce = peak"
    using that by simp
  moreover have "toFixed 2 (drawdown peak ce) = 0" if "peak \<le> 0"
    using that by (simp add: drawdown_nonpos_peak)
  moreover have "drawdown peak ce = (if peak > 0 then ((peak - ce) / peak) * 100 else 0)"
    by (simp add: drawdown_def)
  ultimately show ?thesis
    using mx by (simp add: pt)
qed

text \<open>
  The bound of 100 stated for every point does not hold: with the default configuration,
  a near price of 100 followed by 80 gives equity 1200 and then -800, and a recorded
  drawdown of 166.67.
\<close>

theorem drawdown_above_100:
  "map_option (map ep_drawdown \<circ> res_equityCurve) (runBacktest default_config (Some crash_series))
     = Some [0, 16667 / 100] \<and>
   map_option (map ep_equity \<circ> res_equityCurve) (runBacktest default_config (Some crash_series))
     = Some [1200, - 800] \<and>
   (100 :: rat) < 16667 / 100"
  by (simp add: run_defs engine_defs default_config_def crash_series_def obs_def Let_def)

lemma scenario_run:
  "runBacktest scenario_config (Some scenario_series) = Some scenario_run"
  by (simp add: run_defs engine_defs scenario_config_def scenario_series_def obs_def
      scenario_run_def Let_def)

lemma scenario_window:
  "filter (in_window scenario_config) scenario_series = scenario_series"
  by (simp add: in_window_def scenario_config_def scenario_series_def obs_def)

lemma scenario_equity_2: "equity_at scenario_config scenario_series 2 = 1050"
  unfolding equity_at_def after_rollover_def scenario_state_2
  by (simp add: prev_of_def engine_defs scenario_config_def scenario_series_def obs_def Let_def)

lemma zero_margin_run:
  "runBacktest zero_margin_config (Some flat_series) = Some zero_margin_run"
  by (simp add: run_defs engine_defs zero_margin_config_def flat_series_def obs_def
      zero_margin_run_def Let_def)

lemma zero_margin_window:
  "filter (in_window zero_margin_config) flat_series = flat_series"
  by (simp add: in_window_def zero_margin_config_def flat_series_def obs_def)

lemma zero_margin_equity_0: "equity_at zero_margin_config flat_series 0 = 0"
  by (simp add: equity_at_0 initialCapital_def zero_margin_config_def)

lemma zero_margin_peak_0: "peakEquity (state_before zero_margin_config flat_series (Suc 0)) = 0"
proof -
  have "0 < length flat_series" by (simp add: flat_series_def)
  from peakEquity_state_before_Suc [OF this, of zero_margin_config]
  have "peakEquity (state_before zero_margin_config flat_series (Suc 0)) =
      max (peakEquity (state_before zero_margin_config flat_series 0)) 0"
    by (simp only: zero_margin_equity_0)
  also have "peakEquity (state_before zero_margin_config flat_series 0) = 0"
    by (simp add: state_before_0 init_state_def initialCapital_def zero_margin_config_def)
  finally show ?thesis by simp
qed

theorem drawdown_bounds_witness:
  "runBacktest scenario_config (Some scenario_series) = Some scenario_run \<and>
   2 < length (res_equityCurve scenario_run) \<and>
   0 \<le> equity_at scenario_config (filter (in_window scenario_config) scenario_series) 2 \<and>
   ep_drawdown (res_equityCurve scenario_run ! 2) = 25 / 2 \<and>
   0 \<le> ep_drawdown (res_equityCurve scenario_run ! 2) \<and>
   ep_drawdown (res_equityCurve scenario_run ! 2) \<le> 100 \<and>
   runBacktest zero_margin_config (Some flat_series) = Some zero_margin_run \<and>
   0 < length (res_equityCurve zero_margin_run) \<and>
   equity_at zero_margin_config (filter (in_window zero_margin_config) flat_series) 0 =
     peakEquity (state_before zero_margin_config
       (filter (in_window zero_margin_config) flat_series) (Suc 0)) \<and>
   peakEquity (state_before zero_margin_config
     (filter (in_window zero_margin_config) flat_series) (Suc 0)) \<le> 0 \<and>
   ep_drawdown (res_equityCurve zero_margin_run ! 0) = 0"
proof -
  have h: "2 < length (res_equityCurve scenario_run)"
    by (simp add: scenario_run_def)
  have k: "0 < length (res_equityCurve zero_margin_run)"
    by (simp add: zero_margin_run_def)
  have e: "equity_at scenario_config (filter (in_window scenario_config) scenario_series) 2 = 1050"
    by (simp add: scenario_window scenario_equity_2)
  have z: "equity_at zero_margin_config (filter (in_window zero_margin_config) flat_series) 0 = 0"
    by (simp add: zero_margin_window zero_margin_equity_0)
  have p: "peakEquity (state_before zero_margin_config
      (filter (in_window zero_margin_config) flat_series) (Suc 0)) = 0"
    by (simp add: zero_margin_window zero_margin_peak_0)
  have d: "ep_drawdown (res_equityCurve scenario_run ! 2) = 25 / 2"
    by (simp add: scenario_run_def)
  from drawdown_bounds [OF scenario_run h]
  have a: "0 \<le> equity_at scenario_config (filter (in_window scenario_config) scenario_series) 2 \<longrightarrow>
      ep_drawdown (res_equityCurve scenario_run ! 2) \<le> 100"
    and a0: "0 \<le> ep_drawdown (res_equityCurve scenario_run ! 2)"
    by blast+
  from drawdown_bounds [OF zero_margin_run k]
  have b: "peakEquity (state_before zero_margin_config
      (filter (in_window zero_margin_config) flat_series) (Suc 0)) \<le> 0 \<longrightarrow>
      ep_drawdown (res_equityCurve zero_margin_run ! 0) = 0"
    by blast
  from scenario_run h zero_margin_run k a a0 b e z p d show ?thesis
    by simp
qed

section \<open>The first day\<close>

lemma trades_day_step:
  "\<exists>new. trades (day_step cfg prev today s) = trades s @ new \<and>
         (\<forall>t \<in> set new. tr_date t = date today)"
  by (cases prev)
     (auto simp: day_step_def drawdown_tracking_def compounding_check_def check_rollover_def
        rollover_def Let_def)

lemma trades_state_before_Suc:
  assumes "i < length data"
  shows "\<exists>new. trades (state_before cfg data (Suc i)) = trades (state_before cfg data i) @ new \<and>
           (\<forall>t \<in> set new. tr_date t = date (data ! i))"
  unfolding state_before_Suc [OF assms] by (rule trades_day_step)

lemma trades_after_first_day:
  assumes "trades (state_before cfg data 1) = []" and "1 \<le> n" and "n \<le> length data"
  shows "\<forall>t \<in> set (trades (state_before cfg data n)). \<exists>i. 0 < i \<and> i < n \<and> tr_date t = date (data ! i)"
  using assms(2,3)
proof (induction n)
  case 0
  then show ?case by simp
next
  case (Suc n)
  show ?case
  proof (cases "n = 0")
    case True
    then show ?thesis using assms(1) by simp
  next
    case False
    with Suc have IH: "\<forall>t \<in> set (trades (state_before cfg data n)).
        \<exists>i. 0 < i \<and> i < n \<and> tr_date t = date (data ! i)"
      by simp
    from Suc.prems have "n < length data" by simp
    from trades_state_before_Suc [OF this, of cfg] obtain new where
      new: "trades (state_before cfg data (Suc n)) = trades (state_before cfg data n) @ new"
        "\<forall>t \<in> set new. tr_date t = date (data ! n)"
      by blast
    show ?thesis
    proof
      fix t assume "t \<in> set (trades (state_before cfg data (Suc n)))"
      then consider "t \<in> set (trades (state_before cfg data n))" | "t \<in> set new"
        by (auto simp: new(1))
      then show "\<exists>i. 0 < i \<and> i < Suc n \<and> tr_date t = date (data ! i)"
      proof cases
        case 1
        with IH obtain i where "0 < i" "i < n" "tr_date t = date (data ! i)" by blast
        then show ?thesis by (intro exI [of _ i]) simp
      next
        case 2
        with new(2) False show ?thesis by (intro exI [of _ n]) simp
      qed
    qed
  qed
qed

lemma first_day_state:
  assumes "data \<noteq> []" and "0 < initialCapital cfg (data ! 0)"
    and "neverCompound cfg \<or> \<not> isCompounding cfg \<or> 0 < compoundingFactor cfg"
  shows "state_before cfg data (Suc 0) =
           (init_state cfg (data ! 0))
             \<lparr>equitySeries :=
                [\<lparr>ep_date = date (data ! 0),
                  ep_equity = Math_round (initialCapital cfg (data ! 0)),
                  ep_lots = initialLots cfg, ep_drawdown = 0\<rparr>],
              drawdownSeries := [\<lparr>dp_date = date (data ! 0), dp_drawdown = 0\<rparr>]\<rparr>"
proof -
  have "\<not> 0 \<ge> (compoundingFactor cfg / 100) * initialCapital cfg (data ! 0)"
    if "0 < compoundingFactor cfg"
    using that assms(2) by (simp add: not_le)
  moreover have "state_before cfg data (Suc 0) =
      day_step cfg None (data ! 0) (init_state cfg (data ! 0))"
    using assms(1) by (simp add: state_before_Suc state_before_0 prev_of_def)
  ultimately show ?thesis
    using assms(2,3)
    by (auto simp: day_step_def check_rollover_def mark_to_market_def
        compounding_check_def drawdown_tracking_def new_peak_def drawdown_def init_state_def Let_def)
qed

lemma initialCapital_pos:
  assumes "0 < price_near d0" and "0 < initialMarginPercent cfg" and "0 < initialLots cfg"
  shows "0 < initialCapital cfg d0"
  using assms by (simp add: initialCapital_def CONTRACT_MULTIPLIER_def Let_def)

text \<open>
  C10, for a positive \<open>initialLots\<close> and a positive \<open>compoundingFactor\<close> (or compounding
  switched off). For every run with output whose first filtered day has a positive near
  price, with a positive \<open>initialMarginPercent\<close>: the first equity point is
  \<open>round(initialCapital)\<close> with \<open>lots = initialLots\<close> and drawdown 0, the first
  iteration appends no trade, and when the dates of the filtered days are distinct no
  trade of the log is dated the first filtered day.
\<close>

theorem first_day:
  fixes cfg fd r
  defines "data \<equiv> filter (in_window cfg) fd"
  assumes "runBacktest cfg (Some fd) = Some r"
    and "0 < price_near (data ! 0)" and "0 < initialMarginPercent cfg" and "0 < initialLots cfg"
    and "neverCompound cfg \<or> \<not> isCompounding cfg \<or> 0 < compoundingFactor cfg"
  shows "res_equityCurve r ! 0 =
           \<lparr>ep_date = date (data ! 0), ep_equity = Math_round (initialCapital cfg (data ! 0)),
            ep_lots = initialLots cfg, ep_drawdown = 0\<rparr> \<and>
         trades (state_before cfg data 1) = [] \<and>
         (distinct (map date data) \<longrightarrow> (\<forall>t \<in> set (res_tradeLog r). tr_date t \<noteq> date (data ! 0)))"
proof -
  have len: "2 \<le> length data"
    using assms(2) by (auto simp: runBacktest_Some_iff data_def)
  have pos: "0 < initialCapital cfg (data ! 0)"
    by (rule initialCapital_pos) fact+
  have ne: "data \<noteq> []" and i0: "0 < length (filter (in_window cfg) fd)"
    using len by (auto simp: data_def)
  note st = first_day_state [OF ne pos assms(6)]
  have a: "res_equityCurve r ! 0 =
           \<lparr>ep_date = date (data ! 0), ep_equity = Math_round (initialCapital cfg (data ! 0)),
            ep_lots = initialLots cfg, ep_drawdown = 0\<rparr>"
    using pos unfolding equityCurve_nth [OF assms(2) i0] data_def [symmetric]
    by (simp add: st equity_at_0 init_state_def drawdown_def)
  have b: "trades (state_before cfg data 1) = []"
    by (simp add: st init_state_def)
  have log: "res_tradeLog r = rev (trades (state_before cfg data (length data)))"
    using assms(2) by (auto simp: runBacktest_Some_iff final_stats_def Let_def state_before_length data_def)
  have c: "\<forall>t \<in> set (res_tradeLog r). tr_date t \<noteq> date (data ! 0)" if d: "distinct (map date data)"
  proof
    fix t assume "t \<in> set (res_tradeLog r)"
    then have "t \<in> set (trades (state_before cfg data (length data)))"
      by (simp add: log)
    with trades_after_first_day [OF b, of "length data"] len
    obtain i where i: "0 < i" "i < length data" "tr_date t = date (data ! i)"
      by auto
    have "date (data ! i) \<noteq> date (data ! 0)"
      using d i ne nth_eq_iff_index_eq [of "map date data" i 0] by auto
    with i show "tr_date t \<noteq> date (data ! 0)" by simp
  qed
  from a b c show ?thesis by blast
qed

text \<open>
  Without the condition on \<open>compoundingFactor\<close> the statement fails: with a factor of 0
  the test \<open>0 \<ge> 0\<close> succeeds on the first day, the first equity point has 2 lots for
  \<open>initialLots = 1\<close>, and a Compounding trade is dated the first filtered day.
\<close>

theorem first_day_compounding:
  "map_option (map ep_lots \<circ> res_equityCurve) (runBacktest zero_factor_config (Some flat_series))
     = Some [2, 4] \<and>
   map_option (map tr_date \<circ> res_tradeLog) (runBacktest zero_factor_config (Some flat_series))
     = Some [''2020-12-31'', ''2020-12-30''] \<and>
   map_option (map tr_type \<circ> res_tradeLog) (runBacktest zero_factor_config (Some flat_series))
     = Some [''Compounding'', ''Compounding''] \<and>
   filter (in_window zero_factor_config) flat_series = flat_series \<and>
   date (flat_series ! 0) = ''2020-12-30'' \<and>
   0 < price_near (flat_series ! 0) \<and> 0 < initialMarginPercent zero_factor_config \<and>
   initialLots zero_factor_config = 1"
  by (simp add: run_defs engine_defs zero_factor_config_def flat_series_def obs_def Let_def)

theorem first_day_witness:
  "runBacktest scenario_config (Some scenario_series) = Some scenario_run \<and>
   0 < price_near (filter (in_window scenario_config) scenario_series ! 0) \<and>
   0 < initialMarginPercent scenario_config \<and> 0 < initialLots scenario_config \<and>
   0 < compoundingFactor scenario_config \<and>
   distinct (map date (filter (in_window scenario_config) scenario_series)) \<and>
   res_equityCurve scenario_run ! 0 =
     \<lparr>ep_date = ''2020-01-01'', ep_equity = 1000, ep_lots = 1, ep_drawdown = 0\<rparr> \<and>
   trades (state_before scenario_config
     (filter (in_window scenario_config) scenario_series) 1) = [] \<and>
   date (filter (in_window scenario_config) scenario_series ! 0) = ''2020-01-01'' \<and>
   map tr_date (res_tradeLog scenario_run) = [''2020-01-03'']"
proof -
  have h: "0 < price_near (filter (in_window scenario_config) scenario_series ! 0)"
    "0 < initialMarginPercent scenario_config" "0 < initialLots scenario_config"
    "neverCompound scenario_config \<or> \<not> isCompounding scenario_config \<or>
      0 < compoundingFactor scenario_config"
    by (simp_all add: scenario_window) (simp_all add: scenario_config_def scenario_series_def obs_def)
  have d: "distinct (map date (filter (in_window scenario_config) scenario_series))"
    by (simp add: scenario_window) (simp add: scenario_series_def obs_def)
  have n: "date (scenario_series ! 0) = ''2020-01-01''"
    by (simp add: scenario_series_def obs_def)
  have c: "0 < compoundingFactor scenario_config"
    by (simp add: scenario_config_def)
  have l: "map tr_date (res_tradeLog scenario_run) = [''2020-01-03'']"
    by (simp add: scenario_run_def)
  have p: "res_equityCurve scenario_run ! 0 =
     \<lparr>ep_date = ''2020-01-01'', ep_equity = 1000, ep_lots = 1, ep_drawdown = 0\<rparr>"
    by (simp add: scenario_run_def)
  from first_day [OF scenario_run h] have "trades (state_before scenario_config
      (filter (in_window scenario_config) scenario_series) 1) = []"
    by blast
  with scenario_run h(1-3) d c l p n show ?thesis
    by (simp add: scenario_window)
qed

section \<open>Yearly returns\<close>

lemma map_of_yearsMap_add:
  "map_of (yearsMap_add y e m) =
     (map_of m)(y \<mapsto> (case map_of m y of None \<Rightarrow> (e, e) | Some (st, en) \<Rightarrow> (st, e)))"
proof (induction m)
  case Nil
  then show ?case by simp
next
  case (Cons a m)
  obtain k st en where a: "a = (k, st, en)" by (cases a)
  show ?case
  proof (cases "k = y")
    case True
    then show ?thesis by (auto simp: a fun_eq_iff)
  next
    case False
    then show ?thesis by (auto simp: a Cons.IH fun_eq_iff)
  qed
qed

lemma keys_yearsMap_add:
  "map fst (yearsMap_add y e m) = (if y \<in> fst ` set m then map fst m else map fst m @ [y])"
  by (induction m) force+

lemma distinct_map_insort_key:
  "distinct (map f (insort_key f x xs)) \<longleftrightarrow> f x \<notin> f ` set xs \<and> distinct (map f xs)"
  by (induction xs) (auto simp: set_insort_key)

lemma distinct_map_sort_key:
  "distinct (map f (sort_key f xs)) \<longleftrightarrow> distinct (map f xs)"
  by (induction xs) (auto simp: distinct_map_insort_key)

lemma build_yearsMap_snoc:
  "build_yearsMap (xs @ [p]) = yearsMap_add (point_year p) (ep_equity p) (build_yearsMap xs)"
  by (simp add: build_yearsMap_def point_year_def)

lemma keys_build_yearsMap:
  "set (map fst (build_yearsMap series)) = point_year ` set series \<and>
   distinct (map fst (build_yearsMap series))"
proof (induction series rule: rev_induct)
  case Nil
  then show ?case by (simp add: build_yearsMap_def)
next
  case (snoc p xs)
  then show ?case by (auto simp: build_yearsMap_snoc keys_yearsMap_add)
qed

lemma year_points_snoc:
  "year_points y (xs @ [p]) = (if point_year p = y then year_points y xs @ [p] else year_points y xs)"
  by (simp add: year_points_def)

lemma year_points_Nil_iff: "year_points y xs = [] \<longleftrightarrow> y \<notin> point_year ` set xs"
  by (auto simp: year_points_def filter_empty_conv)

lemma map_of_build_yearsMap:
  "map_of (build_yearsMap series) y =
     (if y \<in> point_year ` set series then Some (spec_first series y, spec_end series y) else None)"
proof (induction series rule: rev_induct)
  case Nil
  then show ?case by (simp add: build_yearsMap_def)
next
  case (snoc p xs)
  show ?case
  proof (cases "point_year p = y")
    case False
    then show ?thesis
      using snoc by (auto simp: build_yearsMap_snoc map_of_yearsMap_add spec_first_def spec_end_def
          year_points_snoc)
  next
    case True
    show ?thesis
    proof (cases "y \<in> point_year ` set xs")
      case True
      then have "year_points y xs \<noteq> []" by (simp add: year_points_Nil_iff)
      with True \<open>point_year p = y\<close> snoc show ?thesis
        by (simp add: build_yearsMap_snoc map_of_yearsMap_add spec_first_def spec_end_def
            year_points_snoc)
    next
      case False
      then have "year_points y xs = []" by (simp add: year_points_Nil_iff)
      with False \<open>point_year p = y\<close> snoc show ?thesis
        by (simp add: build_yearsMap_snoc map_of_yearsMap_add spec_first_def spec_end_def
            year_points_snoc)
    qed
  qed
qed

lemma entries_from_keys:
  assumes "\<forall>(k, v) \<in> set es. v = g k"
  shows "es = map (\<lambda>k. (k, g k)) (map fst es)"
  using assms by (induction es) auto

lemma sorted_yearsMap:
  "sort_key fst (build_yearsMap series) =
     map (\<lambda>y. (y, spec_first series y, spec_end series y)) (spec_years series)"
proof -
  let ?m = "build_yearsMap series"
  let ?es = "sort_key fst ?m"
  have d: "distinct (map fst ?m)" and s: "set (map fst ?m) = point_year ` set series"
    using keys_build_yearsMap [of series] by simp_all
  have d': "distinct (map fst ?es)"
    using d by (simp only: distinct_map_sort_key)
  have "map fst ?es = spec_years series"
  proof (rule sorted_distinct_set_unique)
    show "sorted (map fst ?es)" by simp
    show "distinct (map fst ?es)" by (rule d')
    show "sorted (spec_years series)" by (simp add: spec_years_def)
    show "distinct (spec_years series)" by (simp add: spec_years_def)
    show "set (map fst ?es) = set (spec_years series)"
      using s by (simp add: spec_years_def)
  qed
  moreover have "v = (spec_first series k, spec_end series k)" if "(k, v) \<in> set ?es" for k v
  proof -
    from that have "(k, v) \<in> set ?m" by simp
    with d have "map_of ?m k = Some v" by simp
    then show ?thesis
      by (simp add: map_of_build_yearsMap split: if_splits)
  qed
  then have "\<forall>(k, v) \<in> set ?es. v = (spec_first series k, spec_end series k)"
    by blast
  ultimately show ?thesis
    using entries_from_keys [of ?es "\<lambda>k. (spec_first series k, spec_end series k)"] by simp
qed

lemma yoy_loop_spec:
  "yoy_loop (map_option (\<lambda>y. (y, spec_first series y, spec_end series y)) prior)
       (map (\<lambda>y. (y, spec_first series y, spec_end series y)) ys) =
     map (\<lambda>(y, ret). \<lparr>yr_year = y, yr_return = js_toFixed 1 ret\<rparr>) (spec_yearly series prior ys)"
proof (induction ys arbitrary: prior)
  case Nil
  then show ?case by simp
next
  case (Cons y ys)
  show ?case
    using Cons.IH [of "Some y"] by (cases prior) (simp_all add: Let_def)
qed

lemma calculateYoY_spec:
  "calculateYoY series =
     map (\<lambda>(y, ret). \<lparr>yr_year = y, yr_return = js_toFixed 1 ret\<rparr>) (spec_yearly_returns series)"
  using yoy_loop_spec [of series None "spec_years series"]
  by (simp add: calculateYoY_def sorted_yearsMap spec_yearly_returns_def)


lemma yoy_ret_cases:
  "yoy_ret start en = (if start = 0 then NonFinite else Finite ((en - start) / start * 100))"
  by (simp add: yoy_ret_def)

lemma compound_spec_yearly:
  assumes "ys \<noteq> []" and "NonFinite \<notin> set (map snd (spec_yearly series prior ys))"
  shows "compound_returns
           (case prior of None \<Rightarrow> spec_first series (hd ys) | Some py \<Rightarrow> spec_end series py)
           (map snd (spec_yearly series prior ys)) = Finite (spec_end series (last ys))"
  using assms
proof (induction ys arbitrary: prior)
  case Nil
  then show ?case by simp
next
  case (Cons y ys)
  define c where "c = (case prior of None \<Rightarrow> spec_first series y | Some py \<Rightarrow> spec_end series py)"
  define en where "en = spec_end series y"
  have sy: "spec_yearly series prior (y # ys) = (y, yoy_ret c en) # spec_yearly series (Some y) ys"
    by (simp add: c_def en_def Let_def)
  from Cons.prems(2) have fin: "yoy_ret c en \<noteq> NonFinite"
    and rest: "NonFinite \<notin> set (map snd (spec_yearly series (Some y) ys))"
    unfolding sy by auto
  from fin have c0: "c \<noteq> 0" by (auto simp: yoy_ret_cases)
  then have val: "yoy_ret c en = Finite ((en - c) / c * 100)" by (simp add: yoy_ret_cases)
  have tel: "c * (1 + ((en - c) / c * 100) / 100) = en"
    using c0 by (simp add: field_simps)
  have "compound_returns c (map snd (spec_yearly series prior (y # ys))) =
      compound_returns (c * (1 + ((en - c) / c * 100) / 100))
        (map snd (spec_yearly series (Some y) ys))"
    unfolding sy val by simp
  then have step: "compound_returns c (map snd (spec_yearly series prior (y # ys))) =
      compound_returns en (map snd (spec_yearly series (Some y) ys))"
    by (simp only: tel)
  have c_eq: "(case prior of None \<Rightarrow> spec_first series (hd (y # ys)) | Some py \<Rightarrow> spec_end series py) = c"
    by (cases prior) (simp_all add: c_def)
  have "compound_returns en (map snd (spec_yearly series (Some y) ys)) =
      Finite (spec_end series (last (y # ys)))"
  proof (cases "ys = []")
    case True
    then show ?thesis by (simp add: en_def)
  next
    case False
    with Cons.IH [OF False rest] show ?thesis by (simp add: en_def)
  qed
  with step have "compound_returns c (map snd (spec_yearly series prior (y # ys))) =
      Finite (spec_end series (last (y # ys)))"
    by (rule trans)
  then show ?case unfolding c_eq .
qed

lemma sorted_hd_Min:
  fixes zs :: "'a::linorder list"
  assumes "sorted zs" and "zs \<noteq> []"
  shows "hd zs = Min (set zs)"
  using assms by (cases zs) (auto intro!: Min_eqI [symmetric])

lemma sorted_last_Max:
  fixes zs :: "'a::linorder list"
  assumes "sorted zs" and "zs \<noteq> []"
  shows "last zs = Max (set zs)"
  using assms
  by (induction zs) (auto intro!: Max_eqI [symmetric] simp: max_def)

lemma spec_years_ends:
  assumes "sorted (map point_year series)" and "series \<noteq> []"
  shows "spec_years series \<noteq> []"
    and "hd (spec_years series) = point_year (hd series)"
    and "last (spec_years series) = point_year (last series)"
proof -
  let ?xs = "map point_year series"
  have ne: "?xs \<noteq> []" using assms(2) by simp
  have set: "set (spec_years series) = set ?xs" by (simp add: spec_years_def)
  show n: "spec_years series \<noteq> []"
    using ne set by (metis set_empty)
  have srt: "sorted (spec_years series)" by (simp add: spec_years_def)
  have "hd (spec_years series) = Min (set ?xs)"
    using sorted_hd_Min [OF srt n] by (simp only: set)
  also have "\<dots> = hd ?xs"
    using sorted_hd_Min [OF assms(1) ne] by simp
  finally show "hd (spec_years series) = point_year (hd series)"
    using assms(2) by (simp add: hd_map)
  have "last (spec_years series) = Max (set ?xs)"
    using sorted_last_Max [OF srt n] by (simp only: set)
  also have "\<dots> = last ?xs"
    using sorted_last_Max [OF assms(1) ne] by simp
  finally show "last (spec_years series) = point_year (last series)"
    using assms(2) by (simp add: last_map)
qed

lemma spec_first_hd:
  assumes "series \<noteq> []"
  shows "spec_first series (point_year (hd series)) = ep_equity (hd series)"
  using assms by (cases series) (simp_all add: spec_first_def year_points_def)

lemma spec_end_last:
  assumes "series \<noteq> []"
  shows "spec_end series (point_year (last series)) = ep_equity (last series)"
proof -
  from assms obtain xs p where "series = xs @ [p]"
    by (metis rev_exhaust)
  then show ?thesis by (simp add: spec_end_def year_points_snoc)
qed

lemma compound_yearly_returns:
  assumes "series \<noteq> []" and "sorted (map point_year series)"
    and "NonFinite \<notin> set (map snd (spec_yearly_returns series))"
  shows "compound_returns (ep_equity (hd series)) (map snd (spec_yearly_returns series)) =
           Finite (ep_equity (last series))"
proof -
  note e = spec_years_ends [OF assms(2,1)]
  from compound_spec_yearly [OF e(1), of series None] assms(3)
  show ?thesis
    by (simp add: spec_yearly_returns_def e(2,3) spec_first_hd [OF assms(1)] spec_end_last [OF assms(1)])
qed

lemma fst_spec_yearly: "map fst (spec_yearly series prior ys) = ys"
  by (induction ys arbitrary: prior) (simp_all add: Let_def)

lemma years_ascending: "sorted_wrt (<) (map yr_year (calculateYoY series))"
proof -
  have "map yr_year (calculateYoY series) = map fst (spec_yearly_returns series)"
    by (simp add: calculateYoY_spec case_prod_unfold comp_def)
  also have "\<dots> = spec_years series"
    by (simp add: spec_yearly_returns_def fst_spec_yearly)
  finally show ?thesis
    by (simp add: strict_sorted_iff spec_years_def)
qed

lemma floor_half_close:
  fixes y :: rat
  shows "\<bar>of_int \<lfloor>y + 1 / 2\<rfloor> - y\<bar> \<le> 1 / 2"
proof -
  define z :: rat where "z = of_int \<lfloor>y + 1 / 2\<rfloor>"
  have "z \<le> y + 1 / 2"
    unfolding z_def by (rule of_int_floor_le)
  moreover have "y + 1 / 2 < z + 1"
    unfolding z_def using floor_correct [of "y + 1 / 2"] by simp
  ultimately have "\<bar>z - y\<bar> \<le> 1 / 2" by linarith
  then show ?thesis by (simp only: z_def)
qed

lemma Math_round_close: "\<bar>Math_round x - x\<bar> \<le> 1 / 2"
  unfolding Math_round_def by (rule floor_half_close)

lemma toFixed_1_close: "\<bar>toFixed 1 x - x\<bar> \<le> 1 / 20"
proof -
  have *: "\<bar>of_int \<lfloor>y * 10 + 1 / 2\<rfloor> / 10 - y\<bar> \<le> 1 / 20" for y :: rat
  proof -
    define z :: rat where "z = of_int \<lfloor>y * 10 + 1 / 2\<rfloor>"
    have "\<bar>z - y * 10\<bar> \<le> 1 / 2"
      unfolding z_def by (rule floor_half_close)
    then have "\<bar>z / 10 - y\<bar> \<le> 1 / 20" by linarith
    then show ?thesis by (simp only: z_def)
  qed
  show ?thesis
  proof (cases "x < 0")
    case True
    have "toFixed 1 x - x = - (of_int \<lfloor>(- x) * 10 + 1 / 2\<rfloor> / 10 - (- x))"
      using True by (simp add: toFixed_def)
    then have "\<bar>toFixed 1 x - x\<bar> = \<bar>of_int \<lfloor>(- x) * 10 + 1 / 2\<rfloor> / 10 - (- x)\<bar>"
      by (simp only: abs_minus_cancel)
    with * [of "- x"] show ?thesis by (simp only:)
  next
    case False
    then have "toFixed 1 x = of_int \<lfloor>x * 10 + 1 / 2\<rfloor> / 10"
      by (simp add: toFixed_def)
    with * [of x] show ?thesis by (simp only:)
  qed
qed


lemma run_stats:
  assumes "runBacktest cfg (Some fd) = Some r"
  shows "st_finalCapital (res_stats r) = ep_equity (last (res_equityCurve r))"
    and "st_initialCapital (res_stats r) = initialCapital cfg (filter (in_window cfg) fd ! 0)"
    and "res_yearlyReturns r = calculateYoY (res_equityCurve r)"
    and "res_equityCurve r \<noteq> []"
    and "ep_equity (hd (res_equityCurve r)) = Math_round (st_initialCapital (res_stats r))"
proof -
  let ?data = "filter (in_window cfg) fd"
  from assms have len: "2 \<le> length ?data"
    and r: "r = final_stats cfg (?data ! 0) (simulate cfg ?data)"
    by (auto simp: runBacktest_Some_iff)
  show "st_finalCapital (res_stats r) = ep_equity (last (res_equityCurve r))"
    and ic: "st_initialCapital (res_stats r) = initialCapital cfg (?data ! 0)"
    and "res_yearlyReturns r = calculateYoY (res_equityCurve r)"
    by (simp_all add: r final_stats_def Let_def)
  have l: "length (res_equityCurve r) = length ?data"
    by (rule equityCurve_length [OF assms])
  with len show ne: "res_equityCurve r \<noteq> []" by auto
  have "hd (res_equityCurve r) = res_equityCurve r ! 0"
    using ne by (simp add: hd_conv_nth)
  also have "ep_equity \<dots> = Math_round (equity_at cfg ?data 0)"
  proof -
    from len have "0 < length ?data" by linarith
    from equityCurve_nth [OF assms this] show ?thesis by simp
  qed
  finally show "ep_equity (hd (res_equityCurve r)) = Math_round (st_initialCapital (res_stats r))"
    by (simp add: equity_at_0 ic)
qed

lemma abs_prod_list_map:
  fixes f :: "'a \<Rightarrow> rat"
  shows "\<bar>prod_list (map f xs)\<bar> = prod_list (map (\<lambda>x. \<bar>f x\<bar>) xs)"
  by (induction xs) (simp_all add: abs_mult)

lemma prod_list_abs_nonneg:
  fixes f :: "'a \<Rightarrow> rat"
  shows "0 \<le> prod_list (map (\<lambda>x. \<bar>f x\<bar>) xs)"
  by (induction xs) simp_all

lemma prod_list_perturbed:
  fixes f g :: "'a \<Rightarrow> rat"
  assumes "\<forall>x \<in> set xs. \<bar>g x - f x\<bar> \<le> e" and "0 \<le> e"
  shows "\<bar>prod_list (map g xs) - prod_list (map f xs)\<bar> \<le>
           prod_list (map (\<lambda>x. \<bar>f x\<bar> + e) xs) - prod_list (map (\<lambda>x. \<bar>f x\<bar>) xs)"
  using assms(1)
proof (induction xs)
  case Nil
  then show ?case by simp
next
  case (Cons x xs)
  define Q where "Q = prod_list (map g xs)"
  define P where "P = prod_list (map f xs)"
  define A where "A = prod_list (map (\<lambda>x. \<bar>f x\<bar> + e) xs)"
  define B where "B = prod_list (map (\<lambda>x. \<bar>f x\<bar>) xs)"
  from Cons have IH: "\<bar>Q - P\<bar> \<le> A - B" and gx: "\<bar>g x - f x\<bar> \<le> e"
    by (simp_all add: Q_def P_def A_def B_def)
  have PB: "\<bar>P\<bar> = B" unfolding P_def B_def by (rule abs_prod_list_map)
  have B0: "0 \<le> B" unfolding B_def by (rule prod_list_abs_nonneg)
  have AB: "0 \<le> A - B" using IH by linarith
  have g: "\<bar>g x\<bar> \<le> \<bar>f x\<bar> + e" using gx by linarith
  have "g x * Q - f x * P = g x * (Q - P) + (g x - f x) * P"
    by (simp add: algebra_simps)
  then have "\<bar>g x * Q - f x * P\<bar> \<le> \<bar>g x\<bar> * \<bar>Q - P\<bar> + \<bar>g x - f x\<bar> * \<bar>P\<bar>"
    by (metis abs_mult abs_triangle_ineq)
  also have "\<dots> \<le> (\<bar>f x\<bar> + e) * (A - B) + e * B"
  proof -
    have "\<bar>g x\<bar> * \<bar>Q - P\<bar> \<le> (\<bar>f x\<bar> + e) * (A - B)"
      using g IH AB by (intro mult_mono) simp_all
    moreover have "\<bar>g x - f x\<bar> * \<bar>P\<bar> \<le> e * B"
      unfolding PB using gx B0 by (intro mult_right_mono)
    ultimately show ?thesis by linarith
  qed
  also have "\<dots> = (\<bar>f x\<bar> + e) * A - \<bar>f x\<bar> * B"
    by (simp add: algebra_simps)
  finally show ?case
    by (simp add: Q_def P_def A_def B_def)
qed

lemma compound_returns_finite:
  "compound_returns c (map Finite xs) = Finite (c * prod_list (map growth xs))"
  by (induction xs arbitrary: c) (simp_all add: growth_def mult.assoc)

lemma finite_values_id:
  "NonFinite \<notin> set rs \<Longrightarrow> map Finite (finite_values rs) = rs"
  by (induction rs rule: finite_values.induct) simp_all

lemma js_toFixed_finite_values:
  "NonFinite \<notin> set rs \<Longrightarrow>
     map (js_toFixed f) rs = map Finite (map (toFixed f) (finite_values rs))"
  by (induction rs rule: finite_values.induct) simp_all


lemma growth_toFixed_close: "\<bar>growth (toFixed 1 x) - growth x\<bar> \<le> 1 / 2000"
proof -
  define d where "d = toFixed 1 x - x"
  have "growth (toFixed 1 x) - growth x = d / 100"
    unfolding d_def growth_def by (simp add: diff_divide_distrib)
  moreover have "\<bar>d\<bar> \<le> 1 / 20"
    unfolding d_def by (rule toFixed_1_close)
  ultimately show ?thesis by linarith
qed

lemma chained_within_tolerance:
  fixes ic fin :: rat
  assumes "Math_round ic * prod_list (map growth xs) = fin"
  shows "\<bar>ic * prod_list (map growth (map (toFixed 1) xs)) - fin\<bar> \<le> chain_tolerance ic xs"
proof -
  define G where "G = prod_list (map (\<lambda>x. growth (toFixed 1 x)) xs)"
  define F where "F = prod_list (map growth xs)"
  define A where "A = prod_list (map (\<lambda>x. \<bar>growth x\<bar> + 1 / 2000) xs)"
  define B where "B = prod_list (map (\<lambda>x. \<bar>growth x\<bar>) xs)"
  have GF: "\<bar>G - F\<bar> \<le> A - B"
    unfolding G_def F_def A_def B_def
  proof (rule prod_list_perturbed)
    show "\<forall>x \<in> set xs. \<bar>growth (toFixed 1 x) - growth x\<bar> \<le> 1 / 2000"
      using growth_toFixed_close by blast
    show "(0::rat) \<le> 1 / 2000" by simp
  qed
  have FB: "\<bar>F\<bar> = B" unfolding F_def B_def by (rule abs_prod_list_map)
  have B0: "0 \<le> B" unfolding B_def by (rule prod_list_abs_nonneg)
  have r: "\<bar>ic - Math_round ic\<bar> \<le> 1 / 2"
    using Math_round_close [of ic] by (simp add: abs_minus_commute)
  have "ic * G - Math_round ic * F = ic * (G - F) + (ic - Math_round ic) * F"
    by (simp add: algebra_simps)
  then have "\<bar>ic * G - Math_round ic * F\<bar> \<le> \<bar>ic\<bar> * \<bar>G - F\<bar> + \<bar>ic - Math_round ic\<bar> * \<bar>F\<bar>"
    by (metis abs_mult abs_triangle_ineq)
  also have "\<dots> \<le> \<bar>ic\<bar> * (A - B) + 1 / 2 * B"
  proof -
    have "\<bar>ic\<bar> * \<bar>G - F\<bar> \<le> \<bar>ic\<bar> * (A - B)"
      using GF by (intro mult_left_mono) simp_all
    moreover have "\<bar>ic - Math_round ic\<bar> * \<bar>F\<bar> \<le> 1 / 2 * B"
      unfolding FB using r B0 by (intro mult_right_mono)
    ultimately show ?thesis by linarith
  qed
  finally have "\<bar>ic * G - Math_round ic * F\<bar> \<le> chain_tolerance ic xs"
    by (simp add: chain_tolerance_def A_def B_def)
  then show ?thesis
    using assms by (simp add: G_def F_def comp_def)
qed

lemma chained_final_bound:
  assumes "runBacktest cfg (Some fd) = Some r"
    and "sorted (map point_year (res_equityCurve r))"
    and "NonFinite \<notin> set (map snd (spec_yearly_returns (res_equityCurve r)))"
  shows "compound_returns (Math_round (st_initialCapital (res_stats r)))
           (map snd (spec_yearly_returns (res_equityCurve r))) = Finite (st_finalCapital (res_stats r))"
    and "\<exists>v. chained_final r = Finite v \<and>
           \<bar>v - st_finalCapital (res_stats r)\<bar> \<le>
             chain_tolerance (st_initialCapital (res_stats r))
               (finite_values (map snd (spec_yearly_returns (res_equityCurve r))))"
proof -
  note st = run_stats [OF assms(1)]
  let ?rets = "map snd (spec_yearly_returns (res_equityCurve r))"
  let ?xs = "finite_values ?rets"
  let ?ic = "st_initialCapital (res_stats r)"
  from compound_yearly_returns [OF st(4) assms(2,3)]
  show ex: "compound_returns (Math_round ?ic) ?rets = Finite (st_finalCapital (res_stats r))"
    by (simp only: st(1) st(5) [symmetric])
  have rets: "?rets = map Finite ?xs"
    using finite_values_id [OF assms(3)] by simp
  from ex have fin: "Math_round ?ic * prod_list (map growth ?xs) = st_finalCapital (res_stats r)"
    by (subst (asm) rets) (simp add: compound_returns_finite)
  have "map yr_return (res_yearlyReturns r) = map (js_toFixed 1) ?rets"
    by (simp add: st(3) calculateYoY_spec case_prod_unfold comp_def)
  also have "\<dots> = map Finite (map (toFixed 1) ?xs)"
    by (rule js_toFixed_finite_values [OF assms(3)])
  finally have "chained_final r = Finite (?ic * prod_list (map growth (map (toFixed 1) ?xs)))"
    by (simp only: chained_final_def compound_returns_finite)
  with chained_within_tolerance [OF fin]
  show "\<exists>v. chained_final r = Finite v \<and>
           \<bar>v - st_finalCapital (res_stats r)\<bar> \<le> chain_tolerance ?ic ?xs"
    by blast
qed

text \<open>
  C8, with the tolerance of the chaining made explicit and years that start from 0 left
  out. The yearly returns of a run are the returns of the specification, one per calendar
  year in ascending order, each formatted to one decimal: \<open>end\<close> is the year's last equity
  and \<open>start\<close> the previous year's last equity (the year's first equity for the first
  year). When the equity points are in ascending order of year and no \<open>start\<close> is 0,
  compounding the reported returns one after the other from the initial capital gives a
  finite value, and it differs from the final equity by at most \<open>chain_tolerance\<close>, the
  error that formatting each return to one decimal and rounding the first equity point can
  cause; without the two roundings (unformatted returns, from \<open>round(initialCapital)\<close>) the
  compounding gives the final equity exactly.
\<close>

theorem yearly_returns_chain:
  fixes cfg fd r
  defines "curve \<equiv> res_equityCurve r"
  defines "rets \<equiv> map snd (spec_yearly_returns (res_equityCurve r))"
  assumes "runBacktest cfg (Some fd) = Some r"
  shows "res_yearlyReturns r =
           map (\<lambda>(y, ret). \<lparr>yr_year = y, yr_return = js_toFixed 1 ret\<rparr>) (spec_yearly_returns curve) \<and>
         sorted_wrt (<) (map yr_year (res_yearlyReturns r)) \<and>
         (sorted (map point_year curve) \<and> NonFinite \<notin> set rets \<longrightarrow>
            (\<exists>v. chained_final r = Finite v \<and>
               \<bar>v - st_finalCapital (res_stats r)\<bar> \<le>
                 chain_tolerance (st_initialCapital (res_stats r)) (finite_values rets)) \<and>
            compound_returns (Math_round (st_initialCapital (res_stats r))) rets =
              Finite (st_finalCapital (res_stats r)))"
proof -
  note st = run_stats [OF assms(3)]
  have a: "res_yearlyReturns r =
      map (\<lambda>(y, ret). \<lparr>yr_year = y, yr_return = js_toFixed 1 ret\<rparr>) (spec_yearly_returns curve)"
    unfolding st(3) curve_def by (rule calculateYoY_spec)
  have b: "sorted_wrt (<) (map yr_year (res_yearlyReturns r))"
    unfolding st(3) by (rule years_ascending)
  have c: "(\<exists>v. chained_final r = Finite v \<and>
               \<bar>v - st_finalCapital (res_stats r)\<bar> \<le>
                 chain_tolerance (st_initialCapital (res_stats r)) (finite_values rets)) \<and>
            compound_returns (Math_round (st_initialCapital (res_stats r))) rets =
              Finite (st_finalCapital (res_stats r))"
    if "sorted (map point_year curve) \<and> NonFinite \<notin> set rets"
    using that chained_final_bound [OF assms(3)] unfolding curve_def rets_def by blast
  from a b c show ?thesis by blast
qed

text \<open>
  The chaining does not hold within a fixed tolerance for every run with output. When a
  year ends with equity 0, the next year's return is the result of a division by 0, and
  compounding the reported returns gives no finite value, while the final equity is 200.
  When a year takes the equity from 1000000 to 400, its return of -99.96 is reported as
  -100.0, and the reported returns compound to 0 while the final equity is 1000000.
\<close>

theorem chaining_fails:
  "map_option chained_final (runBacktest default_config (Some wipeout_series)) = Some NonFinite \<and>
   map_option (st_finalCapital \<circ> res_stats) (runBacktest default_config (Some wipeout_series))
     = Some 200 \<and>
   map_option (map ep_equity \<circ> res_equityCurve) (runBacktest default_config (Some wipeout_series))
     = Some [1200, 0, 200] \<and>
   map_option (map yr_return \<circ> res_yearlyReturns) (runBacktest scenario_config (Some rounding_series))
     = Some [Finite (- 100), Finite 249900] \<and>
   map_option chained_final (runBacktest scenario_config (Some rounding_series)) = Some (Finite 0) \<and>
   map_option (st_initialCapital \<circ> res_stats) (runBacktest scenario_config (Some rounding_series))
     = Some 1000000 \<and>
   map_option (st_finalCapital \<circ> res_stats) (runBacktest scenario_config (Some rounding_series))
     = Some 1000000 \<and>
   map_option (map ep_equity \<circ> res_equityCurve) (runBacktest scenario_config (Some rounding_series))
     = Some [1000000, 400, 1000000]"
  by (simp add: run_defs engine_defs default_config_def wipeout_series_def scenario_config_def
      rounding_series_def obs_def Let_def chained_final_def)

lemma rounding_run:
  "runBacktest scenario_config (Some rounding_series) = Some rounding_run"
  by (simp add: run_defs engine_defs scenario_config_def rounding_series_def obs_def
      rounding_run_def Let_def)

lemma rounding_spec:
  "spec_yearly_returns (res_equityCurve rounding_run) =
     [(''2020'', Finite (- (2499 / 25))), (''2021'', Finite 249900)]"
  by (simp add: rounding_run_def spec_yearly_returns_def spec_years_def point_year_def year_of_def
      spec_first_def spec_end_def year_points_def yoy_ret_def Let_def)

lemma rounding_chained: "chained_final rounding_run = Finite 0"
  by (simp add: chained_final_def rounding_run_def)

lemma rounding_tolerance: "chain_tolerance 1000000 [- (2499 / 25), 249900] = 25000019 / 20"
  by (simp add: chain_tolerance_def growth_def)

theorem yearly_returns_chain_witness:
  "runBacktest scenario_config (Some rounding_series) = Some rounding_run \<and>
   sorted (map point_year (res_equityCurve rounding_run)) \<and>
   map snd (spec_yearly_returns (res_equityCurve rounding_run)) =
     [Finite (- (2499 / 25)), Finite 249900] \<and>
   map yr_return (res_yearlyReturns rounding_run) = [Finite (- 100), Finite 249900] \<and>
   chained_final rounding_run = Finite 0 \<and>
   st_finalCapital (res_stats rounding_run) = 1000000 \<and>
   chain_tolerance (st_initialCapital (res_stats rounding_run))
     (finite_values (map snd (spec_yearly_returns (res_equityCurve rounding_run)))) = 25000019 / 20 \<and>
   \<bar>0 - st_finalCapital (res_stats rounding_run)\<bar> \<le> (25000019 / 20 :: rat) \<and>
   compound_returns (Math_round (st_initialCapital (res_stats rounding_run)))
     [Finite (- (2499 / 25)), Finite 249900] = Finite 1000000"
proof -
  have s: "sorted (map point_year (res_equityCurve rounding_run))"
    by (simp add: rounding_run_def point_year_def year_of_def)
  have n: "NonFinite \<notin> set (map snd (spec_yearly_returns (res_equityCurve rounding_run)))"
    by (simp add: rounding_spec)
  have f: "st_finalCapital (res_stats rounding_run) = 1000000"
    and i: "st_initialCapital (res_stats rounding_run) = 1000000"
    and y: "map yr_return (res_yearlyReturns rounding_run) = [Finite (- 100), Finite 249900]"
    by (simp_all add: rounding_run_def)
  have t: "chain_tolerance (st_initialCapital (res_stats rounding_run))
     (finite_values (map snd (spec_yearly_returns (res_equityCurve rounding_run)))) = 25000019 / 20"
    by (simp add: i rounding_spec rounding_tolerance)
  from yearly_returns_chain [OF rounding_run] s n
  have "(\<exists>v. chained_final rounding_run = Finite v \<and>
               \<bar>v - st_finalCapital (res_stats rounding_run)\<bar> \<le>
                 chain_tolerance (st_initialCapital (res_stats rounding_run))
                   (finite_values (map snd (spec_yearly_returns (res_equityCurve rounding_run)))))"
    and e: "compound_returns (Math_round (st_initialCapital (res_stats rounding_run)))
      (map snd (spec_yearly_returns (res_equityCurve rounding_run))) =
      Finite (st_finalCapital (res_stats rounding_run))"
    by blast+
  then have b: "\<bar>0 - st_finalCapital (res_stats rounding_run)\<bar> \<le> (25000019 / 20 :: rat)"
    by (simp only: rounding_chained t) simp
  from rounding_run s y f t b e show ?thesis
    by (simp add: rounding_spec rounding_chained)
qed

section \<open>Division by a non-positive value\<close>

text \<open>
  C4. The contract is that every division is guarded, so that a zero or negative
  denominator gives a return or drawdown of zero. The drawdown is guarded
  (\<open>drawdown_nonpos_peak\<close>); the yearly return is not. With the default configuration, a
  year that starts from equity 0 has a non-finite return (\<^verbatim>\<open>Infinity\<close> in the
  source), which also makes the average annual return non-finite; a year that starts from
  equity -800 and ends at 1200 has the return -250, not 0.
\<close>

theorem unguarded_return_division:
  "map_option res_yearlyReturns (runBacktest default_config (Some wipeout_series)) =
     Some [\<lparr>yr_year = ''2020'', yr_return = Finite (- 100)\<rparr>,
           \<lparr>yr_year = ''2021'', yr_return = NonFinite\<rparr>] \<and>
   map_option (st_avgAnnualRet \<circ> res_stats) (runBacktest default_config (Some wipeout_series)) =
     Some NonFinite \<and>
   map_option res_yearlyReturns (runBacktest default_config (Some rebound_series)) =
     Some [\<lparr>yr_year = ''2020'', yr_return = Finite (- (1667 / 10))\<rparr>,
           \<lparr>yr_year = ''2021'', yr_return = Finite (- 250)\<rparr>] \<and>
   map_option (map ep_equity \<circ> res_equityCurve) (runBacktest default_config (Some rebound_series)) =
     Some [1200, - 800, 1200]"
  by (simp add: run_defs engine_defs default_config_def wipeout_series_def rebound_series_def
      obs_def Let_def)

end
